theory Spec2Isabelle
  imports Main
begin

text \<open>
  A model of \<open>tiktok_tg.py\<close>, the Telegram bot that answers a TikTok link with its
  video: the link matcher, the identity formatter, the resolver client, the transfer
  manager and the handler of a message. Each definition keeps the name of the function
  it models (a leading underscore is left out) and follows its statements in order.
  Calls that leave the process are recorded in a list, their outcomes are given by a
  record of what the outside answers, and an exception is a value.
\<close>

section \<open>Python values\<close>

text \<open>
  A Python \<open>str\<close> is a sequence of Unicode code points; it is modelled as a list of
  natural numbers, one per code point. \<open>ascii\<close> turns a literal of the theory into
  such a string. Byte strings (file contents, response chunks) are lists of \<open>char\<close>.
\<close>

type_synonym pystr = "nat list"

type_synonym bytes = "char list"

definition ascii :: "string \<Rightarrow> pystr" where
  "ascii = map of_char"

text \<open>
  The exceptions that occur. \<open>ValueError\<close> is what \<open>urlparse\<close> raises,
  \<open>AttributeError\<close> what \<open>x.get\<close> raises on a value that is no dict,
  \<open>ClientResponseError\<close> what \<open>raise_for_status\<close> raises; \<open>ExternalError\<close>
  stands for any exception (a subclass of \<open>Exception\<close>) raised by the network, the
  chat platform or the operating system.
\<close>

datatype exn =
    ValueError
  | AttributeError
  | FileNotFoundError
  | ClientResponseError nat
  | ExternalError string

text \<open>Truthiness of an optional string: \<open>None\<close> and \<open>""\<close> are false.\<close>

fun truthy_str :: "pystr option \<Rightarrow> bool" where
  "truthy_str None = False"
| "truthy_str (Some s) = (s \<noteq> [])"

section \<open>TikTok link detection\<close>

subsection \<open>The pattern \<open>URL_RE\<close>\<close>

text \<open>
  \<open>URL_RE = re.compile(r"https?://[^\s)]+", re.IGNORECASE)\<close>.
  \<open>\s\<close> in a \<open>str\<close> pattern is Unicode whitespace.
\<close>

definition py_isspace :: "nat \<Rightarrow> bool" where
  "py_isspace c \<longleftrightarrow>
     (9 \<le> c \<and> c \<le> 13) \<or> (28 \<le> c \<and> c \<le> 32) \<or> c = 133 \<or> c = 160 \<or> c = 5760 \<or>
     (8192 \<le> c \<and> c \<le> 8202) \<or> c = 8232 \<or> c = 8233 \<or> c = 8239 \<or> c = 8287 \<or> c = 12288"

text \<open>A character of the class \<open>[^\s)]\<close>.\<close>

definition url_body_char :: "nat \<Rightarrow> bool" where
  "url_body_char c \<longleftrightarrow> \<not> py_isspace c \<and> c \<noteq> 41"

text \<open>
  A lower-case ASCII letter \<open>l\<close> of the pattern matches itself and its capital. Under
  \<open>IGNORECASE\<close> the letter \<open>s\<close> also matches U+017F (long s).
\<close>

definition lit_ci :: "nat \<Rightarrow> nat \<Rightarrow> bool" where
  "lit_ci l c \<longleftrightarrow> c = l \<or> c + 32 = l"

definition s_ci :: "nat \<Rightarrow> bool" where
  "s_ci c \<longleftrightarrow> lit_ci 115 c \<or> c = 383"

text \<open>\<open>://[^\s)]+\<close> at the head of a string: the match and what follows it.\<close>

definition sep_body :: "pystr \<Rightarrow> (pystr \<times> pystr) option" where
  "sep_body r =
     (case r of
        c1 # c2 # c3 # b \<Rightarrow>
          if c1 = 58 \<and> c2 = 47 \<and> c3 = 47 \<and> takeWhile url_body_char b \<noteq> []
          then Some ([58, 47, 47] @ takeWhile url_body_char b, dropWhile url_body_char b)
          else None
      | _ \<Rightarrow> None)"

text \<open>\<open>s?://[^\s)]+\<close>: the optional letter is tried first, then left out.\<close>

definition opt_s_sep_body :: "pystr \<Rightarrow> (pystr \<times> pystr) option" where
  "opt_s_sep_body r =
     (case r of
        [] \<Rightarrow> None
      | c # r' \<Rightarrow>
          if s_ci c then
            (case sep_body r' of
               Some (m, rest) \<Rightarrow> Some (c # m, rest)
             | None \<Rightarrow> sep_body r)
          else sep_body r)"

text \<open>The whole pattern, anchored at the head of the string.\<close>

definition URL_RE_match :: "pystr \<Rightarrow> (pystr \<times> pystr) option" where
  "URL_RE_match s =
     (case s of
        h # t1 # t2 # p # r \<Rightarrow>
          if lit_ci 104 h \<and> lit_ci 116 t1 \<and> lit_ci 116 t2 \<and> lit_ci 112 p then
            (case opt_s_sep_body r of
               Some (m, rest) \<Rightarrow> Some (h # t1 # t2 # p # m, rest)
             | None \<Rightarrow> None)
          else None
      | _ \<Rightarrow> None)"

lemma sep_body_shorter: "sep_body r = Some (m, rest) \<Longrightarrow> length rest \<le> length r"
  by (auto simp: sep_body_def length_dropWhile_le le_SucI split: list.splits if_splits)

lemma opt_s_sep_body_shorter:
  "opt_s_sep_body r = Some (m, rest) \<Longrightarrow> length rest \<le> length r"
  by (auto simp: opt_s_sep_body_def le_SucI split: list.splits if_splits option.splits
      dest: sep_body_shorter)

lemma URL_RE_match_shorter: "URL_RE_match s = Some (m, rest) \<Longrightarrow> length rest < length s"
  by (auto simp: URL_RE_match_def less_Suc_eq_le le_SucI
      split: list.splits if_splits option.splits dest!: opt_s_sep_body_shorter)

text \<open>
  \<open>URL_RE.finditer(text)\<close>: the matches from left to right, each search starting
  where the previous match ended.
\<close>

function finditer :: "pystr \<Rightarrow> pystr list" where
  "finditer [] = []"
| "finditer (c # cs) =
     (case URL_RE_match (c # cs) of
        Some (m, rest) \<Rightarrow> m # finditer rest
      | None \<Rightarrow> finditer cs)"
  by pat_completeness auto
termination
  by (relation "measure length") (auto dest: URL_RE_match_shorter)

subsection \<open>\<open>urlparse(u).netloc\<close>\<close>

text \<open>
  The parts of the standard library that depend on the Unicode database or differ between
  releases are parameters of the model: NFKC normalisation, the validation of a netloc
  that has both brackets (none in old releases, then of the text between the brackets,
  then also of where the brackets stand), and \<open>str.lower\<close> on a string that has a
  non-ASCII character. Every theorem below holds for all values of them.
\<close>

record pylib =
  nfkc :: "pystr \<Rightarrow> pystr"
  bracketed_netloc_ok :: "pystr \<Rightarrow> bool"
  lower_unicode :: "pystr \<Rightarrow> pystr"

definition is_ascii_alpha :: "nat \<Rightarrow> bool" where
  "is_ascii_alpha c \<longleftrightarrow> (65 \<le> c \<and> c \<le> 90) \<or> (97 \<le> c \<and> c \<le> 122)"

definition scheme_char :: "nat \<Rightarrow> bool" where
  "scheme_char c \<longleftrightarrow> is_ascii_alpha c \<or> (48 \<le> c \<and> c \<le> 57) \<or> c = 43 \<or> c = 45 \<or> c = 46"

definition isascii :: "pystr \<Rightarrow> bool" where
  "isascii s = list_all (\<lambda>c. c < 128) s"

text \<open>\<open>_splitnetloc(url, 2)\<close>: from index 2 up to the first of \<open>/ ? #\<close>.\<close>

definition splitnetloc :: "pystr \<Rightarrow> pystr" where
  "splitnetloc url = takeWhile (\<lambda>c. c \<noteq> 47 \<and> c \<noteq> 63 \<and> c \<noteq> 35) (drop 2 url)"

text \<open>
  \<open>_checknetloc\<close>: a non-ASCII netloc is rejected when NFKC normalisation brings in one
  of \<open>/ ? # @ :\<close>.
\<close>

definition checknetloc_raises :: "pylib \<Rightarrow> pystr \<Rightarrow> bool" where
  "checknetloc_raises lib netloc =
     (if netloc = [] \<or> isascii netloc then False
      else
        let n = filter (\<lambda>c. c \<noteq> 64 \<and> c \<noteq> 58 \<and> c \<noteq> 35 \<and> c \<noteq> 63) netloc;
            netloc2 = nfkc lib n
        in n \<noteq> netloc2 \<and> (\<exists>c \<in> set [47, 63, 35, 64, 58]. c \<in> set netloc2))"

text \<open>
  \<open>urlsplit\<close> as far as the netloc: leading C0 control characters and spaces are
  stripped, tab, CR and LF removed, a scheme (letters, digits, \<open>+ - .\<close>, first character
  a letter) is cut off at the first colon, and the netloc is what follows \<open>//\<close>.
\<close>

definition urlparse_netloc :: "pylib \<Rightarrow> pystr \<Rightarrow> exn + pystr" where
  "urlparse_netloc lib u =
     (let url = filter (\<lambda>c. c \<noteq> 9 \<and> c \<noteq> 10 \<and> c \<noteq> 13) (dropWhile (\<lambda>c. c \<le> 32) u);
          pre = takeWhile (\<lambda>c. c \<noteq> 58) url;
          url' = (if 58 \<in> set url \<and> pre \<noteq> [] \<and> is_ascii_alpha (hd url) \<and> list_all scheme_char pre
                  then drop (length pre + 1) url else url)
      in
        if take 2 url' = [47, 47] then
          let netloc = splitnetloc url' in
            if (91 \<in> set netloc) \<noteq> (93 \<in> set netloc) then Inl ValueError
            else if 91 \<in> set netloc \<and> \<not> bracketed_netloc_ok lib netloc then Inl ValueError
            else if checknetloc_raises lib netloc then Inl ValueError
            else Inr netloc
        else Inr [])"

text \<open>\<open>str.lower\<close>: on an ASCII string the capitals \<open>A\<close> to \<open>Z\<close> move by 32.\<close>

definition ascii_lower :: "nat \<Rightarrow> nat" where
  "ascii_lower c = (if 65 \<le> c \<and> c \<le> 90 then c + 32 else c)"

definition py_lower :: "pylib \<Rightarrow> pystr \<Rightarrow> pystr" where
  "py_lower lib s = (if isascii s then map ascii_lower s else lower_unicode lib s)"

subsection \<open>The allow-list test and the matcher\<close>

definition ALLOWED_TT_HOSTS :: "pystr list" where
  "ALLOWED_TT_HOSTS =
     [ascii ''tiktok.com'', ascii ''www.tiktok.com'', ascii ''m.tiktok.com'',
      ascii ''vm.tiktok.com'', ascii ''vt.tiktok.com'']"

text \<open>
  \<open>_is_tiktok_link\<close>: the lower-cased netloc, cut at its first colon
  (\<open>host.split(":")[0]\<close>), is looked up in the allow-list; a parse error gives \<open>False\<close>.
\<close>

definition is_tiktok_link :: "pylib \<Rightarrow> pystr \<Rightarrow> bool" where
  "is_tiktok_link lib u =
     (case urlparse_netloc lib u of
        Inl e \<Rightarrow> False
      | Inr netloc \<Rightarrow>
          let host = py_lower lib netloc;
              host' = (if 58 \<in> set host then takeWhile (\<lambda>c. c \<noteq> 58) host else host)
          in host' \<in> set ALLOWED_TT_HOSTS)"

text \<open>The loop of \<open>_extract_tiktok_url_from_text\<close> over the matches.\<close>

fun first_tiktok_link :: "pylib \<Rightarrow> pystr list \<Rightarrow> pystr option" where
  "first_tiktok_link lib [] = None"
| "first_tiktok_link lib (url # ms) =
     (if is_tiktok_link lib url then Some url else first_tiktok_link lib ms)"

definition extract_tiktok_url_from_text :: "pylib \<Rightarrow> pystr option \<Rightarrow> pystr option" where
  "extract_tiktok_url_from_text lib text_opt =
     (case text_opt of
        None \<Rightarrow> None
      | Some t \<Rightarrow> if t = [] then None else first_tiktok_link lib (finditer t))"

subsection \<open>The host of a URL\<close>

text \<open>
  The specification speaks of the URL's host, compared case-insensitively and ignoring a
  trailing port. \<open>spec_url_host\<close> is that host, as \<open>urlparse(u).hostname\<close> gives it:
  the netloc without the user information (everything up to the last \<open>@\<close>) and without
  the port (from the first colon on, or after the closing bracket), lower-cased.
  \<open>spec_allow_listed\<close> looks it up in the allow-list. The code does not use them; its
  own test \<open>is_tiktok_link\<close> is compared with them.
\<close>

definition spec_url_host :: "pylib \<Rightarrow> pystr \<Rightarrow> pystr option" where
  "spec_url_host lib u =
     (case urlparse_netloc lib u of
        Inl e \<Rightarrow> None
      | Inr netloc \<Rightarrow>
          let hostinfo = rev (takeWhile (\<lambda>c. c \<noteq> 64) (rev netloc));
              hostname =
                (if 91 \<in> set hostinfo
                 then takeWhile (\<lambda>c. c \<noteq> 93) (drop 1 (dropWhile (\<lambda>c. c \<noteq> 91) hostinfo))
                 else takeWhile (\<lambda>c. c \<noteq> 58) hostinfo)
          in if hostname = [] then None
             else Some (py_lower lib (takeWhile (\<lambda>c. c \<noteq> 37) hostname)
                        @ dropWhile (\<lambda>c. c \<noteq> 37) hostname))"

definition spec_allow_listed :: "pylib \<Rightarrow> pystr \<Rightarrow> bool" where
  "spec_allow_listed lib u =
     (case spec_url_host lib u of
        None \<Rightarrow> False
      | Some h \<Rightarrow> h \<in> set ALLOWED_TT_HOSTS)"

section \<open>Identity formatting\<close>

record user =
  username :: "pystr option"
  first_name :: "pystr option"
  last_name :: "pystr option"
  uid :: int

record chat =
  chat_type :: pystr

record message =
  msg_text :: "pystr option"
  chat_id :: int
  msg_chat :: "chat option"
  from_user :: "user option"

text \<open>\<open>str(n)\<close> for an integer: its decimal digits, with a minus sign when negative.\<close>

fun str_nat :: "nat \<Rightarrow> pystr" where
  "str_nat n = (if n < 10 then [48 + n] else str_nat (n div 10) @ [48 + n mod 10])"

definition str_int :: "int \<Rightarrow> pystr" where
  "str_int i = (if i < 0 then 45 # str_nat (nat (- i)) else str_nat (nat i))"

text \<open>\<open>" ".join(parts)\<close>.\<close>

fun join_space :: "pystr list \<Rightarrow> pystr" where
  "join_space [] = []"
| "join_space [p] = p"
| "join_space (p # q # ps) = p @ [32] @ join_space (q # ps)"

text \<open>The generator \<open>p for p in [u.first_name, u.last_name] if p\<close>.\<close>

fun truthy_parts :: "pystr option list \<Rightarrow> pystr list" where
  "truthy_parts [] = []"
| "truthy_parts (None # ps) = truthy_parts ps"
| "truthy_parts (Some p # ps) = (if p \<noteq> [] then p # truthy_parts ps else truthy_parts ps)"

definition display_name_from_msg :: "message \<Rightarrow> pystr" where
  "display_name_from_msg msg =
     (case from_user msg of
        None \<Rightarrow> ascii ''unknown''
      | Some u \<Rightarrow>
          if truthy_str (username u) then 64 # the (username u)
          else
            let name = join_space (truthy_parts [first_name u, last_name u])
            in if name \<noteq> [] then name else str_int (uid u))"

section \<open>The resolver client\<close>

text \<open>
  A parsed JSON value, as \<open>r.json()\<close> returns it. A number is modelled by an integer
  (a float is truthy under the same condition, being non-zero); a dict by the list of
  its items.
\<close>

datatype json =
    JNull
  | JBool bool
  | JInt int
  | JStr pystr
  | JArr "json list"
  | JObj "(pystr \<times> json) list"

fun truthy :: "json \<Rightarrow> bool" where
  "truthy JNull = False"
| "truthy (JBool b) = b"
| "truthy (JInt n) = (n \<noteq> 0)"
| "truthy (JStr s) = (s \<noteq> [])"
| "truthy (JArr xs) = (xs \<noteq> [])"
| "truthy (JObj kvs) = (kvs \<noteq> [])"

definition py_or :: "json \<Rightarrow> json \<Rightarrow> json" where
  "py_or a b = (if truthy a then a else b)"

text \<open>\<open>x.get(key)\<close>: only a dict has the method; a missing key gives \<open>None\<close>.\<close>

definition item :: "(pystr \<times> json) list \<Rightarrow> pystr \<Rightarrow> json" where
  "item kvs key = (case map_of kvs key of None \<Rightarrow> JNull | Some v \<Rightarrow> v)"

fun dict_get :: "json \<Rightarrow> pystr \<Rightarrow> exn + json" where
  "dict_get (JObj kvs) key = Inr (item kvs key)"
| "dict_get JNull key = Inl AttributeError"
| "dict_get (JBool b) key = Inl AttributeError"
| "dict_get (JInt n) key = Inl AttributeError"
| "dict_get (JStr s) key = Inl AttributeError"
| "dict_get (JArr xs) key = Inl AttributeError"

section \<open>The world outside\<close>

text \<open>
  The calls that leave the process, in the order they are made. \<open>ReadJson\<close> is
  \<open>await r.json()\<close> on the resolver's response.
\<close>

datatype video = ByUrl json | ByFile bytes

datatype call =
    DeleteMessage
  | SendChatAction int pystr
  | ResolverGet pystr "(pystr \<times> pystr) list"
  | ReadJson
  | SendMessage int pystr
  | SendVideo int video pystr
  | DownloadGet json

fun is_send_message :: "call \<Rightarrow> bool" where
  "is_send_message (SendMessage cid t) = True"
| "is_send_message c = False"

fun is_send_video :: "call \<Rightarrow> bool" where
  "is_send_video (SendVideo cid v cap) = True"
| "is_send_video c = False"

text \<open>
  What the outside answers during one handling of a message. A response carries its
  status, the outcome of parsing its body as JSON, the chunks its body yields and the
  exception, if any, that ends the streaming after them (raised by the stream or by
  \<open>tmp.write\<close>). A fault is the exception a call raises; \<open>None\<close> means it succeeds.
\<close>

record http_response =
  status :: nat
  json_body :: "exn + json"
  chunks :: "bytes list"
  stream_error :: "exn option"

record env =
  api_base :: pystr
  delete_fault :: "exn option"
  chat_action_fault :: "exn option"
  resolver_get :: "exn + http_response"
  send_message_fault :: "exn option"
  send_video_url_fault :: "exn option"
  mktemp :: "exn + pystr"
  download_get :: "exn + http_response"
  close_fault :: "exn option"
  dl_remove_fault :: "exn option"
  open_fault :: "exn option"
  send_video_file_fault :: "exn option"
  final_remove_fault :: "exn option"

text \<open>The file system: the content of every file that exists.\<close>

type_synonym fs = "pystr \<rightharpoonup> bytes"

subsection \<open>\<open>resolve_tiktok_direct_url\<close>\<close>

text \<open>The loop \<open>for key in ("hdplay", "play", "wmplay")\<close>.\<close>

fun probe :: "json \<Rightarrow> pystr list \<Rightarrow> exn + json option" where
  "probe d [] = Inr None"
| "probe d (key # keys) =
     (case dict_get d key of
        Inl e \<Rightarrow> Inl e
      | Inr v \<Rightarrow> if truthy v then Inr (Some v) else probe d keys)"

definition candidate_keys :: "pystr list" where
  "candidate_keys = [ascii ''hdplay'', ascii ''play'', ascii ''wmplay'']"

text \<open>
  The request, the status test and \<open>r.json()\<close> stand inside \<open>try\<close>: an exception
  there gives \<open>None\<close>. The lookups after it stand outside.
\<close>

definition resolve_tiktok_direct_url ::
  "env \<Rightarrow> pystr \<Rightarrow> (exn + json option) \<times> call list" where
  "resolve_tiktok_direct_url env tiktok_url =
     (let req = ResolverGet (api_base env) [(ascii ''url'', tiktok_url), (ascii ''hd'', ascii ''1'')]
      in case resolver_get env of
           Inl e \<Rightarrow> (Inr None, [req])
         | Inr r \<Rightarrow>
             if status r \<noteq> 200 then (Inr None, [req])
             else
               (case json_body r of
                  Inl e \<Rightarrow> (Inr None, [req, ReadJson])
                | Inr data \<Rightarrow>
                    (case dict_get (py_or data (JObj [])) (ascii ''data'') of
                       Inl e \<Rightarrow> (Inl e, [req, ReadJson])
                     | Inr x \<Rightarrow> (probe (py_or x (JObj [])) candidate_keys, [req, ReadJson]))))"

section \<open>The transfer manager\<close>

text \<open>
  \<open>os.remove(path)\<close>: the call fails when the operating system refuses it (the fault)
  or when no file is there.
\<close>

definition os_remove :: "exn option \<Rightarrow> pystr \<Rightarrow> fs \<Rightarrow> exn + fs" where
  "os_remove fault path fs =
     (case fault of
        Some e \<Rightarrow> Inl e
      | None \<Rightarrow> if path \<in> dom fs then Inr (fs(path := None)) else Inl FileNotFoundError)"

text \<open>\<open>try: os.remove(path)\<close> \<open>except Exception: pass\<close>.\<close>

definition remove_quietly :: "exn option \<Rightarrow> pystr \<Rightarrow> fs \<Rightarrow> fs" where
  "remove_quietly fault path fs =
     (case os_remove fault path fs of
        Inl e \<Rightarrow> fs
      | Inr fs' \<Rightarrow> fs')"

text \<open>The loop \<open>async for chunk in ...: tmp.write(chunk)\<close>.\<close>

fun write_chunks :: "bytes \<Rightarrow> bytes list \<Rightarrow> bytes" where
  "write_chunks content [] = content"
| "write_chunks content (chunk # cs) = write_chunks (content @ chunk) cs"

text \<open>
  \<open>tmp.close()\<close> does its work once, flushing what was written: on line 109 when the
  loop has ended, otherwise on line 112 in the handler; a call on a file that was closed
  before does nothing. \<open>close_fault\<close> is what that one call raises.

  The \<open>except\<close> handler of lines 111 to 117, entered with the exception \<open>e\<close>. Its
  first statement \<open>tmp.close()\<close> stands outside the inner \<open>try\<close>: when it raises, its
  exception leaves the function and \<open>os.remove\<close> is not reached. Otherwise the removal
  is tried, a failure of it is dropped, and \<open>e\<close> is raised again.
\<close>

definition except_handler ::
  "env \<Rightarrow> bool \<Rightarrow> exn \<Rightarrow> pystr \<Rightarrow> call list \<Rightarrow> fs \<Rightarrow> (exn + pystr) \<times> call list \<times> fs" where
  "except_handler env close_called e tmp_path tr fs =
     (case (if close_called then None else close_fault env) of
        Some e' \<Rightarrow> (Inl e', tr, fs)
      | None \<Rightarrow> (Inl e, tr, remove_quietly (dl_remove_fault env) tmp_path fs))"

text \<open>
  \<open>NamedTemporaryFile(delete=False)\<close> creates an empty file before the \<open>try\<close>;
  \<open>raise_for_status\<close> raises for a status of 400 or more. Every exception inside the
  \<open>try\<close>, that of \<open>tmp.close()\<close> on line 109 included, reaches the handler.
\<close>

definition download_to_tempfile ::
  "env \<Rightarrow> json \<Rightarrow> fs \<Rightarrow> (exn + pystr) \<times> call list \<times> fs" where
  "download_to_tempfile env url fs =
     (case mktemp env of
        Inl e \<Rightarrow> (Inl e, [], fs)
      | Inr tmp_path \<Rightarrow>
          (let fs0 = fs(tmp_path \<mapsto> [])
           in (case download_get env of
                 Inl e \<Rightarrow> except_handler env False e tmp_path [DownloadGet url] fs0
               | Inr r \<Rightarrow>
                   if 400 \<le> status r then
                     except_handler env False (ClientResponseError (status r)) tmp_path
                       [DownloadGet url] fs0
                   else
                     (let fs1 = fs0(tmp_path \<mapsto> write_chunks [] (chunks r))
                      in (case stream_error r of
                            Some e \<Rightarrow> except_handler env False e tmp_path [DownloadGet url] fs1
                          | None \<Rightarrow>
                              (case close_fault env of
                                 Some e \<Rightarrow>
                                   except_handler env True e tmp_path [DownloadGet url] fs1
                               | None \<Rightarrow> (Inr tmp_path, [DownloadGet url], fs1)))))))"

section \<open>The delivery orchestrator\<close>

datatype outcome = Returned | Raised exn

definition fault_outcome :: "exn option \<Rightarrow> outcome" where
  "fault_outcome fault = (case fault of None \<Rightarrow> Returned | Some e \<Rightarrow> Raised e)"

text \<open>
  \<open>try: await call\<close> \<open>except Exception: pass\<close> (or a logged warning): the call is
  made, and what it raises is dropped.
\<close>

definition swallowed :: "exn option \<Rightarrow> call \<Rightarrow> call list" where
  "swallowed fault c = (case fault of None \<Rightarrow> [c] | Some e \<Rightarrow> [c])"

text \<open>The text of the only \<open>send_message\<close> call; its apostrophe is U+2019.\<close>

definition notice_text :: pystr where
  "notice_text = ascii ''Couldn'' @ [8217] @ ascii ''t resolve that TikTok link. Try a different one?''"

definition caption_of :: "message \<Rightarrow> pystr" where
  "caption_of msg = ascii ''Send By : '' @ display_name_from_msg msg"

definition in_group :: "message \<Rightarrow> bool" where
  "in_group msg =
     (case msg_chat msg of
        None \<Rightarrow> False
      | Some c \<Rightarrow> chat_type c \<in> set [ascii ''group'', ascii ''supergroup''])"

fun truthy_opt :: "json option \<Rightarrow> bool" where
  "truthy_opt None = False"
| "truthy_opt (Some v) = truthy v"

text \<open>\<open>open(path, "rb")\<close> and the read of the whole file by the upload.\<close>

definition open_rb :: "exn option \<Rightarrow> pystr \<Rightarrow> fs \<Rightarrow> exn + bytes" where
  "open_rb fault path fs =
     (case fault of
        Some e \<Rightarrow> Inl e
      | None \<Rightarrow> (case fs path of None \<Rightarrow> Inl FileNotFoundError | Some content \<Rightarrow> Inr content))"

text \<open>
  The fallback: download, then upload; the \<open>finally\<close> clause removes the file when
  \<open>path\<close> was assigned.
\<close>

definition fallback_upload ::
  "env \<Rightarrow> int \<Rightarrow> pystr \<Rightarrow> json \<Rightarrow> fs \<Rightarrow> outcome \<times> call list \<times> fs" where
  "fallback_upload env cid caption direct_url fs =
     (let (res, tr, fs1) = download_to_tempfile env direct_url fs
      in (case res of
            Inl e \<Rightarrow> (Raised e, tr, fs1)
          | Inr path \<Rightarrow>
              (let fs2 = (if path \<noteq> [] then remove_quietly (final_remove_fault env) path fs1
                          else fs1)
               in (case open_rb (open_fault env) path fs1 of
                     Inl e \<Rightarrow> (Raised e, tr, fs2)
                   | Inr content \<Rightarrow>
                       (fault_outcome (send_video_file_fault env),
                        tr @ [SendVideo cid (ByFile content) caption], fs2)))))"

text \<open>What follows the resolver's answer.\<close>

definition deliver ::
  "env \<Rightarrow> int \<Rightarrow> pystr \<Rightarrow> json option \<Rightarrow> fs \<Rightarrow> outcome \<times> call list \<times> fs" where
  "deliver env cid caption direct_url fs =
     (if \<not> truthy_opt direct_url then
        (fault_outcome (send_message_fault env), [SendMessage cid notice_text], fs)
      else
        (case send_video_url_fault env of
           None \<Rightarrow> (Returned, [SendVideo cid (ByUrl (the direct_url)) caption], fs)
         | Some e \<Rightarrow>
             (let (out, tr, fs') = fallback_upload env cid caption (the direct_url) fs
              in (out, SendVideo cid (ByUrl (the direct_url)) caption # tr, fs'))))"

text \<open>
  The calls before the resolver is asked: the moderation delete in a group or supergroup,
  then the chat action. Neither can stop the handling.
\<close>

definition first_calls :: "env \<Rightarrow> message \<Rightarrow> call list" where
  "first_calls env msg =
     (if in_group msg then swallowed (delete_fault env) DeleteMessage else [])
     @ swallowed (chat_action_fault env) (SendChatAction (chat_id msg) (ascii ''upload_video''))"

definition handle_message ::
  "pylib \<Rightarrow> env \<Rightarrow> message option \<Rightarrow> fs \<Rightarrow> outcome \<times> call list \<times> fs" where
  "handle_message lib env upd fs =
     (case upd of
        None \<Rightarrow> (Returned, [], fs)
      | Some msg \<Rightarrow>
          if \<not> truthy_str (msg_text msg) then (Returned, [], fs)
          else
            (case extract_tiktok_url_from_text lib (msg_text msg) of
               None \<Rightarrow> (Returned, [], fs)
             | Some tiktok_url \<Rightarrow>
                 if tiktok_url = [] then (Returned, [], fs)
                 else
                   (let tr1 = first_calls env msg;
                        (res, rtr) = resolve_tiktok_direct_url env tiktok_url
                    in (case res of
                          Inl e \<Rightarrow> (Raised e, tr1 @ rtr, fs)
                        | Inr direct_url \<Rightarrow>
                            (let (out, tr, fs') =
                                   deliver env (chat_id msg) (caption_of msg) direct_url fs
                             in (out, tr1 @ rtr @ tr, fs'))))))"

section \<open>Concrete inputs\<close>

text \<open>The inputs at which the theorems below are instantiated and the code is run.\<close>

definition plain_lib :: pylib where
  "plain_lib = \<lparr>nfkc = (\<lambda>s. s), bracketed_netloc_ok = (\<lambda>n. True), lower_unicode = (\<lambda>s. s)\<rparr>"

definition anon :: message where
  "anon = \<lparr>msg_text = None, chat_id = 7, msg_chat = None, from_user = None\<rparr>"

definition from_whom :: "user \<Rightarrow> message" where
  "from_whom u = \<lparr>msg_text = None, chat_id = 7, msg_chat = None, from_user = Some u\<rparr>"

definition ok_response :: "json \<Rightarrow> http_response" where
  "ok_response body = \<lparr>status = 200, json_body = Inr body, chunks = [], stream_error = None\<rparr>"

definition play_response :: "nat \<Rightarrow> http_response" where
  "play_response st =
     \<lparr>status = st,
      json_body = Inr (JObj [(ascii ''data'', JObj [(ascii ''play'', JStr (ascii ''https://cdn/x.mp4''))])]),
      chunks = [], stream_error = None\<rparr>"

text \<open>An outside in which every call succeeds; only the resolver's answer varies.\<close>

definition quiet_env :: "(exn + http_response) \<Rightarrow> env" where
  "quiet_env resp =
     \<lparr>api_base = ascii ''https://www.tikwm.com/api/'', delete_fault = None,
      chat_action_fault = None, resolver_get = resp, send_message_fault = None,
      send_video_url_fault = None, mktemp = Inr (ascii ''/tmp/tmpab12.mp4''),
      download_get = Inl (ExternalError ''unused''), close_fault = None,
      dl_remove_fault = None, open_fault = None,
      send_video_file_fault = None, final_remove_fault = None\<rparr>"

definition both_fields :: "(pystr \<times> json) list" where
  "both_fields = [(ascii ''play'', JStr (ascii ''https://cdn/sd.mp4'')),
                  (ascii ''hdplay'', JStr (ascii ''https://cdn/hd.mp4''))]"

definition only_wm :: "(pystr \<times> json) list" where
  "only_wm = [(ascii ''hdplay'', JStr []), (ascii ''wmplay'', JStr (ascii ''https://cdn/wm.mp4''))]"

definition data_body :: "(pystr \<times> json) list \<Rightarrow> (pystr \<times> json) list" where
  "data_body d = [(ascii ''code'', JInt 0), (ascii ''data'', JObj d)]"

definition vm_link :: pystr where
  "vm_link = ascii ''https://vm.tiktok.com/ZMxyz/''"

definition vm_text :: pystr where
  "vm_text = ascii ''check this out https://vm.tiktok.com/ZMxyz/''"

definition evil_link :: pystr where
  "evil_link = ascii ''https://tiktok.com:x@evil.example/v''"

definition mixed_text :: pystr where
  "mixed_text = ascii ''https://tiktok.com:x@evil.example/v https://vm.tiktok.com/ZMxyz/''"

definition bob :: user where
  "bob = \<lparr>username = Some (ascii ''bob''), first_name = Some (ascii ''Bob''),
          last_name = None, uid = 42\<rparr>"

definition chat_msg :: "string \<Rightarrow> pystr \<Rightarrow> message" where
  "chat_msg kind t =
     \<lparr>msg_text = Some t, chat_id = 7, msg_chat = Some \<lparr>chat_type = ascii kind\<rparr>,
      from_user = Some bob\<rparr>"

text \<open>A video of two chunks; \<open>err\<close> ends the streaming after them.\<close>

definition video_response :: "exn option \<Rightarrow> http_response" where
  "video_response err =
     \<lparr>status = 200, json_body = Inl (ExternalError ''ContentTypeError''),
      chunks = [''abc'', ''de''], stream_error = err\<rparr>"

text \<open>The download times out and the operating system refuses the removal.\<close>

definition stalled_env :: env where
  "stalled_env =
     (quiet_env (Inr (play_response 200)))
       \<lparr>download_get := Inr (video_response (Some (ExternalError ''TimeoutError''))),
        dl_remove_fault := Some (ExternalError ''PermissionError'')\<rparr>"

text \<open>
  The file cannot grow any more (a full disk, a file size limit): \<open>tmp.write\<close> raises
  after the two chunks, and the flush of \<open>tmp.close()\<close> raises too. \<open>os.remove\<close> would
  work.
\<close>

definition full_disk_env :: env where
  "full_disk_env =
     (quiet_env (Inr (play_response 200)))
       \<lparr>download_get := Inr (video_response (Some (ExternalError ''OSError in tmp.write''))),
        close_fault := Some (ExternalError ''OSError in tmp.close'')\<rparr>"

text \<open>The resolver answers \<open>{"data": {}}\<close>.\<close>

definition empty_data_env :: env where
  "empty_data_env = quiet_env (Inr (ok_response (JObj [(ascii ''data'', JObj [])])))"

text \<open>
  The reference send fails and the download succeeds; the upload and the final removal
  fail as given.
\<close>

definition fallback_env :: "exn option \<Rightarrow> exn option \<Rightarrow> env" where
  "fallback_env upload_fault remove_fault =
     (quiet_env (Inr (play_response 200)))
       \<lparr>send_video_url_fault := Some (ExternalError ''BadRequest''),
        download_get := Inr (video_response None),
        send_video_file_fault := upload_fault,
        final_remove_fault := remove_fault\<rparr>"

section \<open>The identity formatter\<close>

lemma str_nat_nonempty: "str_nat n \<noteq> []"
  by (subst str_nat.simps) simp

lemma str_int_nonempty: "str_int i \<noteq> []"
  by (simp add: str_int_def str_nat_nonempty)

lemma ascii_unknown_nonempty: "ascii ''unknown'' \<noteq> []"
  by (simp add: ascii_def)

lemma display_name_nonempty: "display_name_from_msg msg \<noteq> []"
  by (auto simp: display_name_from_msg_def Let_def str_int_nonempty ascii_unknown_nonempty
      split: option.splits)

text \<open>
  C6. The identity formatter is a total function whose result is never the empty string.
  Without a sender record it is \<open>unknown\<close>; with a non-empty handle it is \<open>@\<close> and the
  handle; otherwise the non-empty ones of first and last name, joined by a space when
  both are there; otherwise the decimal form of the numeric identifier.
\<close>

theorem display_name_total_priority:
  "display_name_from_msg msg \<noteq> [] \<and>
   (from_user msg = None \<longrightarrow> display_name_from_msg msg = ascii ''unknown'') \<and>
   (\<forall>u h. from_user msg = Some u \<and> username u = Some h \<and> h \<noteq> [] \<longrightarrow>
      display_name_from_msg msg = 64 # h) \<and>
   (\<forall>u f l. from_user msg = Some u \<and> \<not> truthy_str (username u) \<and>
      first_name u = Some f \<and> f \<noteq> [] \<and> last_name u = Some l \<and> l \<noteq> [] \<longrightarrow>
      display_name_from_msg msg = f @ [32] @ l) \<and>
   (\<forall>u f. from_user msg = Some u \<and> \<not> truthy_str (username u) \<and>
      first_name u = Some f \<and> f \<noteq> [] \<and> \<not> truthy_str (last_name u) \<longrightarrow>
      display_name_from_msg msg = f) \<and>
   (\<forall>u l. from_user msg = Some u \<and> \<not> truthy_str (username u) \<and>
      \<not> truthy_str (first_name u) \<and> last_name u = Some l \<and> l \<noteq> [] \<longrightarrow>
      display_name_from_msg msg = l) \<and>
   (\<forall>u. from_user msg = Some u \<and> \<not> truthy_str (username u) \<and>
      \<not> truthy_str (first_name u) \<and> \<not> truthy_str (last_name u) \<longrightarrow>
      display_name_from_msg msg = str_int (uid u))"
proof (intro conjI allI impI)
  show "display_name_from_msg msg \<noteq> []" by (rule display_name_nonempty)
next
  assume "from_user msg = None"
  then show "display_name_from_msg msg = ascii ''unknown''"
    by (simp add: display_name_from_msg_def)
next
  fix u h assume "from_user msg = Some u \<and> username u = Some h \<and> h \<noteq> []"
  then show "display_name_from_msg msg = 64 # h"
    by (simp add: display_name_from_msg_def)
next
  fix u f l
  assume "from_user msg = Some u \<and> \<not> truthy_str (username u) \<and>
      first_name u = Some f \<and> f \<noteq> [] \<and> last_name u = Some l \<and> l \<noteq> []"
  then show "display_name_from_msg msg = f @ [32] @ l"
    by (simp add: display_name_from_msg_def)
next
  fix u f
  assume "from_user msg = Some u \<and> \<not> truthy_str (username u) \<and>
      first_name u = Some f \<and> f \<noteq> [] \<and> \<not> truthy_str (last_name u)"
  then show "display_name_from_msg msg = f"
    by (cases "last_name u") (simp_all add: display_name_from_msg_def)
next
  fix u l
  assume "from_user msg = Some u \<and> \<not> truthy_str (username u) \<and>
      \<not> truthy_str (first_name u) \<and> last_name u = Some l \<and> l \<noteq> []"
  then show "display_name_from_msg msg = l"
    by (cases "first_name u") (simp_all add: display_name_from_msg_def)
next
  fix u
  assume "from_user msg = Some u \<and> \<not> truthy_str (username u) \<and>
      \<not> truthy_str (first_name u) \<and> \<not> truthy_str (last_name u)"
  then show "display_name_from_msg msg = str_int (uid u)"
    by (cases "first_name u"; cases "last_name u") (simp_all add: display_name_from_msg_def)
qed

theorem display_name_total_priority_witness:
  "display_name_from_msg anon = ascii ''unknown'' \<and>
   display_name_from_msg (from_whom \<lparr>username = Some (ascii ''bob''), first_name = Some (ascii ''Bob''),
      last_name = Some (ascii ''Ross''), uid = 42\<rparr>) = ascii ''@bob'' \<and>
   display_name_from_msg (from_whom \<lparr>username = None, first_name = Some (ascii ''Bob''),
      last_name = Some (ascii ''Ross''), uid = 42\<rparr>) = ascii ''Bob Ross'' \<and>
   display_name_from_msg (from_whom \<lparr>username = Some [], first_name = Some (ascii ''Bob''),
      last_name = None, uid = 42\<rparr>) = ascii ''Bob'' \<and>
   display_name_from_msg (from_whom \<lparr>username = None, first_name = Some [],
      last_name = Some (ascii ''Ross''), uid = 42\<rparr>) = ascii ''Ross'' \<and>
   display_name_from_msg (from_whom \<lparr>username = None, first_name = Some [],
      last_name = None, uid = 42\<rparr>) = ascii ''42''"
  using display_name_total_priority [of anon]
    display_name_total_priority [of "from_whom \<lparr>username = Some (ascii ''bob''),
      first_name = Some (ascii ''Bob''), last_name = Some (ascii ''Ross''), uid = 42\<rparr>"]
    display_name_total_priority [of "from_whom \<lparr>username = None,
      first_name = Some (ascii ''Bob''), last_name = Some (ascii ''Ross''), uid = 42\<rparr>"]
    display_name_total_priority [of "from_whom \<lparr>username = Some [],
      first_name = Some (ascii ''Bob''), last_name = None, uid = 42\<rparr>"]
    display_name_total_priority [of "from_whom \<lparr>username = None, first_name = Some [],
      last_name = Some (ascii ''Ross''), uid = 42\<rparr>"]
    display_name_total_priority [of "from_whom \<lparr>username = None, first_name = Some [],
      last_name = None, uid = 42\<rparr>"]
  by (simp add: anon_def from_whom_def ascii_def str_int_def)

section \<open>The resolver client\<close>

lemma probe_candidates:
  "probe (JObj d) candidate_keys =
     (if truthy (item d (ascii ''hdplay'')) then Inr (Some (item d (ascii ''hdplay'')))
      else if truthy (item d (ascii ''play'')) then Inr (Some (item d (ascii ''play'')))
      else if truthy (item d (ascii ''wmplay'')) then Inr (Some (item d (ascii ''wmplay'')))
      else Inr None)"
  by (simp add: candidate_keys_def)

lemma resolve_data_record:
  assumes "resolver_get env = Inr r" and "status r = 200"
    and "json_body r = Inr (JObj obj)" and "map_of obj (ascii ''data'') = Some (JObj d)"
  shows "fst (resolve_tiktok_direct_url env url) = probe (JObj d) candidate_keys"
proof -
  from assms(4) have nonempty: "obj \<noteq> []" by auto
  have get: "dict_get (py_or (JObj obj) (JObj [])) (ascii ''data'') = Inr (JObj d)"
    using nonempty assms(4) by (simp add: py_or_def item_def)
  have d: "py_or (JObj d) (JObj []) = JObj d"
    by (cases d) (simp_all add: py_or_def)
  show ?thesis
    using assms(1-3) get d by (simp add: resolve_tiktok_direct_url_def Let_def)
qed

text \<open>
  C5. When the resolver answers with status 200 and a JSON object whose \<open>data\<close> is an
  object \<open>d\<close>, the result is the first truthy (non-empty) one of \<open>d\<close>'s fields
  \<open>hdplay\<close>, \<open>play\<close>, \<open>wmplay\<close>, in that order: with \<open>hdplay\<close> and \<open>play\<close> both
  non-empty it is \<open>hdplay\<close>; with only \<open>wmplay\<close> non-empty it is \<open>wmplay\<close>; with \<open>d\<close>
  empty or all three empty it is \<open>None\<close>, no media found.
\<close>

theorem resolver_field_preference:
  assumes "resolver_get env = Inr r" and "status r = 200"
    and "json_body r = Inr (JObj obj)" and "map_of obj (ascii ''data'') = Some (JObj d)"
  shows "fst (resolve_tiktok_direct_url env url) =
           (if truthy (item d (ascii ''hdplay'')) then Inr (Some (item d (ascii ''hdplay'')))
            else if truthy (item d (ascii ''play'')) then Inr (Some (item d (ascii ''play'')))
            else if truthy (item d (ascii ''wmplay'')) then Inr (Some (item d (ascii ''wmplay'')))
            else Inr None) \<and>
         (truthy (item d (ascii ''hdplay'')) \<and> truthy (item d (ascii ''play'')) \<longrightarrow>
            fst (resolve_tiktok_direct_url env url) = Inr (Some (item d (ascii ''hdplay'')))) \<and>
         (\<not> truthy (item d (ascii ''hdplay'')) \<and> \<not> truthy (item d (ascii ''play'')) \<and>
          truthy (item d (ascii ''wmplay'')) \<longrightarrow>
            fst (resolve_tiktok_direct_url env url) = Inr (Some (item d (ascii ''wmplay'')))) \<and>
         (d = [] \<or> (\<not> truthy (item d (ascii ''hdplay'')) \<and> \<not> truthy (item d (ascii ''play'')) \<and>
          \<not> truthy (item d (ascii ''wmplay''))) \<longrightarrow>
            fst (resolve_tiktok_direct_url env url) = Inr None)"
proof -
  have eq: "fst (resolve_tiktok_direct_url env url) = probe (JObj d) candidate_keys"
    using assms by (rule resolve_data_record)
  have empty: "\<not> truthy (item [] k)" for k
    by (simp add: item_def)
  show ?thesis
    unfolding eq probe_candidates using empty by auto
qed

theorem resolver_field_preference_witness:
  "fst (resolve_tiktok_direct_url (quiet_env (Inr (ok_response (JObj (data_body both_fields)))))
         (ascii ''https://vm.tiktok.com/ZMxyz/''))
     = Inr (Some (JStr (ascii ''https://cdn/hd.mp4''))) \<and>
   fst (resolve_tiktok_direct_url (quiet_env (Inr (ok_response (JObj (data_body only_wm)))))
         (ascii ''https://vm.tiktok.com/ZMxyz/''))
     = Inr (Some (JStr (ascii ''https://cdn/wm.mp4''))) \<and>
   fst (resolve_tiktok_direct_url (quiet_env (Inr (ok_response (JObj (data_body [])))))
         (ascii ''https://vm.tiktok.com/ZMxyz/''))
     = Inr None"
proof -
  have env: "resolver_get (quiet_env (Inr (ok_response (JObj (data_body d)))))
               = Inr (ok_response (JObj (data_body d)))" for d
    by (simp add: quiet_env_def)
  have st: "status (ok_response (JObj (data_body d))) = 200"
    and body: "json_body (ok_response (JObj (data_body d))) = Inr (JObj (data_body d))" for d
    by (simp_all add: ok_response_def)
  have data: "map_of (data_body d) (ascii ''data'') = Some (JObj d)" for d
    by (simp add: data_body_def ascii_def)
  have hd: "truthy (item both_fields (ascii ''hdplay'')) \<and> truthy (item both_fields (ascii ''play''))"
    and hdv: "item both_fields (ascii ''hdplay'') = JStr (ascii ''https://cdn/hd.mp4'')"
    by (simp_all add: both_fields_def item_def ascii_def)
  have wm: "\<not> truthy (item only_wm (ascii ''hdplay'')) \<and> \<not> truthy (item only_wm (ascii ''play'')) \<and>
         truthy (item only_wm (ascii ''wmplay''))"
    and wmv: "item only_wm (ascii ''wmplay'') = JStr (ascii ''https://cdn/wm.mp4'')"
    by (simp_all add: only_wm_def item_def ascii_def)
  from resolver_field_preference [where d = "both_fields" and url = "ascii ''https://vm.tiktok.com/ZMxyz/''",
      OF env st body data] hd hdv
  have 1: "fst (resolve_tiktok_direct_url (quiet_env (Inr (ok_response (JObj (data_body both_fields)))))
         (ascii ''https://vm.tiktok.com/ZMxyz/'')) = Inr (Some (JStr (ascii ''https://cdn/hd.mp4'')))"
    by simp
  from resolver_field_preference [where d = "only_wm" and url = "ascii ''https://vm.tiktok.com/ZMxyz/''",
      OF env st body data] wm wmv
  have 2: "fst (resolve_tiktok_direct_url (quiet_env (Inr (ok_response (JObj (data_body only_wm)))))
         (ascii ''https://vm.tiktok.com/ZMxyz/'')) = Inr (Some (JStr (ascii ''https://cdn/wm.mp4'')))"
    by simp
  from resolver_field_preference [where d = "[]" and url = "ascii ''https://vm.tiktok.com/ZMxyz/''",
      OF env st body data]
  have 3: "fst (resolve_tiktok_direct_url (quiet_env (Inr (ok_response (JObj (data_body [])))))
         (ascii ''https://vm.tiktok.com/ZMxyz/'')) = Inr None"
    by (simp add: item_def)
  from 1 2 3 show ?thesis by simp
qed

text \<open>
  C10. Only status 200 counts as success: when the request returns a response with any
  other status (201 and 204 included), the result is \<open>None\<close> and the body is not read.
\<close>

theorem resolver_only_200:
  assumes "resolver_get env = Inr r" and "status r \<noteq> 200"
  shows "fst (resolve_tiktok_direct_url env url) = Inr None \<and>
         ReadJson \<notin> set (snd (resolve_tiktok_direct_url env url))"
  using assms by (simp add: resolve_tiktok_direct_url_def Let_def)

theorem resolver_only_200_witness:
  "fst (resolve_tiktok_direct_url (quiet_env (Inr (play_response 201)))
         (ascii ''https://vm.tiktok.com/ZMxyz/'')) = Inr None \<and>
   ReadJson \<notin> set (snd (resolve_tiktok_direct_url (quiet_env (Inr (play_response 201)))
         (ascii ''https://vm.tiktok.com/ZMxyz/''))) \<and>
   fst (resolve_tiktok_direct_url (quiet_env (Inr (play_response 204)))
         (ascii ''https://vm.tiktok.com/ZMxyz/'')) = Inr None \<and>
   fst (resolve_tiktok_direct_url (quiet_env (Inr (play_response 200)))
         (ascii ''https://vm.tiktok.com/ZMxyz/''))
     = Inr (Some (JStr (ascii ''https://cdn/x.mp4'')))"
proof -
  have a: "resolver_get (quiet_env (Inr (play_response 201))) = Inr (play_response 201)"
    and b: "resolver_get (quiet_env (Inr (play_response 204))) = Inr (play_response 204)"
    by (simp_all add: quiet_env_def)
  have a': "status (play_response 201) \<noteq> 200" and b': "status (play_response 204) \<noteq> 200"
    by (simp_all add: play_response_def)
  have c: "fst (resolve_tiktok_direct_url (quiet_env (Inr (play_response 200)))
         (ascii ''https://vm.tiktok.com/ZMxyz/''))
     = Inr (Some (JStr (ascii ''https://cdn/x.mp4'')))"
    by (simp add: resolve_tiktok_direct_url_def quiet_env_def play_response_def py_or_def
        item_def candidate_keys_def ascii_def)
  from resolver_only_200 [OF a a'] resolver_only_200 [OF b b'] c show ?thesis by simp
qed

text \<open>
  What holds of C4: a transport failure, a status other than 200, a body that does not
  parse, and an object whose \<open>data\<close> is missing, falsy, or an object without a truthy
  candidate, all give \<open>None\<close>.
\<close>

lemma resolver_no_media_cases:
  "resolver_get env = Inl e \<Longrightarrow> fst (resolve_tiktok_direct_url env url) = Inr None"
  "resolver_get env = Inr r \<Longrightarrow> status r \<noteq> 200 \<Longrightarrow>
     fst (resolve_tiktok_direct_url env url) = Inr None"
  "resolver_get env = Inr r \<Longrightarrow> status r = 200 \<Longrightarrow> json_body r = Inl e \<Longrightarrow>
     fst (resolve_tiktok_direct_url env url) = Inr None"
  "resolver_get env = Inr r \<Longrightarrow> status r = 200 \<Longrightarrow> json_body r = Inr body \<Longrightarrow>
     \<not> truthy body \<Longrightarrow> fst (resolve_tiktok_direct_url env url) = Inr None"
  "resolver_get env = Inr r \<Longrightarrow> status r = 200 \<Longrightarrow> json_body r = Inr (JObj obj) \<Longrightarrow>
     \<not> truthy (item obj (ascii ''data'')) \<Longrightarrow>
     fst (resolve_tiktok_direct_url env url) = Inr None"
  by (auto simp: resolve_tiktok_direct_url_def Let_def py_or_def item_def candidate_keys_def)

text \<open>
  C4. The code at two bodies of another shape, received with status 200: the object
  \<open>{"data": "not found"}\<close> and the array \<open>[1]\<close>. The lookups after the \<open>try\<close> block
  call \<open>.get\<close> on a string and on a list, and the resolver raises \<open>AttributeError\<close>
  instead of returning \<open>None\<close>.
\<close>

theorem resolver_raises_on_other_shapes:
  "fst (resolve_tiktok_direct_url
         (quiet_env (Inr (ok_response (JObj [(ascii ''data'', JStr (ascii ''not found''))]))))
         (ascii ''https://vm.tiktok.com/ZMxyz/''))
     = Inl AttributeError \<and>
   fst (resolve_tiktok_direct_url (quiet_env (Inr (ok_response (JArr [JInt 1]))))
         (ascii ''https://vm.tiktok.com/ZMxyz/''))
     = Inl AttributeError"
  by (simp add: resolve_tiktok_direct_url_def quiet_env_def ok_response_def py_or_def item_def
      candidate_keys_def ascii_def)

section \<open>The transfer manager\<close>

lemma write_chunks_concat: "write_chunks content cs = content @ concat cs"
  by (induction cs arbitrary: content) simp_all

lemma remove_quietly_no_fault: "remove_quietly None p (fs(p \<mapsto> c)) = fs(p := None)"
  by (simp add: remove_quietly_def os_remove_def)

lemma remove_quietly_fault: "remove_quietly (Some e) p fs = fs"
  by (simp add: remove_quietly_def os_remove_def)

lemma remove_quietly_present:
  "fs path = Some content \<Longrightarrow> remove_quietly None path fs path = None"
  by (auto simp: remove_quietly_def os_remove_def)

lemma download_no_tempfile:
  "mktemp env = Inl e \<Longrightarrow> download_to_tempfile env url fs = (Inl e, [], fs)"
  by (simp add: download_to_tempfile_def)

text \<open>
  What holds of C1 while \<open>tmp.close()\<close> works. Let the temporary file be created at
  \<open>p\<close>. When the request, the status check and the streaming succeed, the call returns
  \<open>p\<close> and the file at \<open>p\<close> holds all chunks of the body, in order. When the request
  fails, the status is 400 or more, or the streaming fails, the call raises that
  exception; the removal of the file is attempted, and when \<open>os.remove\<close> succeeds no
  file is left at \<open>p\<close> and the rest of the file system is as before. When \<open>os.remove\<close>
  itself fails, that failure is dropped and the file stays.
\<close>

lemma download_complete_or_removed:
  assumes "mktemp env = Inr p" and "close_fault env = None"
  shows
    "(\<forall>r. download_get env = Inr r \<and> status r < 400 \<and> stream_error r = None \<longrightarrow>
        download_to_tempfile env url fs =
          (Inr p, [DownloadGet url], fs(p \<mapsto> concat (chunks r)))) \<and>
     (\<forall>e. download_get env = Inl e \<longrightarrow>
        fst (download_to_tempfile env url fs) = Inl e \<and>
        (dl_remove_fault env = None \<longrightarrow>
           snd (snd (download_to_tempfile env url fs)) = fs(p := None)) \<and>
        (dl_remove_fault env \<noteq> None \<longrightarrow>
           snd (snd (download_to_tempfile env url fs)) p \<noteq> None)) \<and>
     (\<forall>r. download_get env = Inr r \<and> 400 \<le> status r \<longrightarrow>
        fst (download_to_tempfile env url fs) = Inl (ClientResponseError (status r)) \<and>
        (dl_remove_fault env = None \<longrightarrow>
           snd (snd (download_to_tempfile env url fs)) = fs(p := None)) \<and>
        (dl_remove_fault env \<noteq> None \<longrightarrow>
           snd (snd (download_to_tempfile env url fs)) p \<noteq> None)) \<and>
     (\<forall>r e. download_get env = Inr r \<and> status r < 400 \<and> stream_error r = Some e \<longrightarrow>
        fst (download_to_tempfile env url fs) = Inl e \<and>
        (dl_remove_fault env = None \<longrightarrow>
           snd (snd (download_to_tempfile env url fs)) = fs(p := None)) \<and>
        (dl_remove_fault env \<noteq> None \<longrightarrow>
           snd (snd (download_to_tempfile env url fs)) p \<noteq> None))"
proof (intro conjI allI impI)
  fix r assume "download_get env = Inr r \<and> status r < 400 \<and> stream_error r = None"
  then show "download_to_tempfile env url fs =
          (Inr p, [DownloadGet url], fs(p \<mapsto> concat (chunks r)))"
    using assms by (simp add: download_to_tempfile_def Let_def write_chunks_concat)
next
  fix e assume req: "download_get env = Inl e"
  then show "fst (download_to_tempfile env url fs) = Inl e"
    using assms by (simp add: download_to_tempfile_def except_handler_def Let_def)
  show "snd (snd (download_to_tempfile env url fs)) = fs(p := None)"
    if "dl_remove_fault env = None"
    using assms req that
    by (simp add: download_to_tempfile_def except_handler_def Let_def remove_quietly_no_fault)
  show "snd (snd (download_to_tempfile env url fs)) p \<noteq> None"
    if "dl_remove_fault env \<noteq> None"
    using assms req that
    by (auto simp: download_to_tempfile_def except_handler_def Let_def remove_quietly_fault)
next
  fix r assume st: "download_get env = Inr r \<and> 400 \<le> status r"
  then show "fst (download_to_tempfile env url fs) = Inl (ClientResponseError (status r))"
    using assms by (simp add: download_to_tempfile_def except_handler_def Let_def)
  show "snd (snd (download_to_tempfile env url fs)) = fs(p := None)"
    if "dl_remove_fault env = None"
    using assms st that
    by (simp add: download_to_tempfile_def except_handler_def Let_def remove_quietly_no_fault)
  show "snd (snd (download_to_tempfile env url fs)) p \<noteq> None"
    if "dl_remove_fault env \<noteq> None"
    using assms st that
    by (auto simp: download_to_tempfile_def except_handler_def Let_def remove_quietly_fault)
next
  fix r e assume se: "download_get env = Inr r \<and> status r < 400 \<and> stream_error r = Some e"
  then show "fst (download_to_tempfile env url fs) = Inl e"
    using assms by (simp add: download_to_tempfile_def except_handler_def Let_def)
  show "snd (snd (download_to_tempfile env url fs)) = fs(p := None)"
    if "dl_remove_fault env = None"
    using assms se that
    by (simp add: download_to_tempfile_def except_handler_def Let_def remove_quietly_no_fault)
  show "snd (snd (download_to_tempfile env url fs)) p \<noteq> None"
    if "dl_remove_fault env \<noteq> None"
    using assms se that
    by (auto simp: download_to_tempfile_def except_handler_def Let_def remove_quietly_fault)
qed

text \<open>
  When \<open>tmp.close()\<close> fails on line 109, after the loop, the handler has nothing left to
  close: the removal is attempted and the exception of the close is raised.
\<close>

lemma download_close_fault_after_loop:
  assumes "mktemp env = Inr p" and "download_get env = Inr r" and "status r < 400"
    and "stream_error r = None" and "close_fault env = Some e"
  shows "fst (download_to_tempfile env url fs) = Inl e \<and>
         (dl_remove_fault env = None \<longrightarrow>
            snd (snd (download_to_tempfile env url fs)) = fs(p := None))"
  using assms
  by (simp add: download_to_tempfile_def except_handler_def Let_def remove_quietly_no_fault)

text \<open>
  When the request, the status check or the streaming fails and \<open>tmp.close()\<close> then
  fails in the handler, the exception of the close is raised, whatever the first one
  was, and the file stays, whether \<open>os.remove\<close> would have worked or not.
\<close>

lemma download_close_fault_in_handler:
  assumes "mktemp env = Inr p" and "close_fault env = Some e'"
    and "(\<exists>e. download_get env = Inl e) \<or>
         (\<exists>r. download_get env = Inr r \<and> (400 \<le> status r \<or> stream_error r \<noteq> None))"
  shows "fst (download_to_tempfile env url fs) = Inl e' \<and>
         snd (snd (download_to_tempfile env url fs)) p \<noteq> None"
  using assms
  by (auto simp: download_to_tempfile_def except_handler_def Let_def)

text \<open>
  The streaming times out after two chunks and \<open>os.remove\<close> raises: the handler drops
  the second exception, the call raises the first, and the partial file is still there.
\<close>

lemma download_leaves_partial_file:
  "fst (download_to_tempfile stalled_env (JStr (ascii ''https://cdn/x.mp4'')) Map.empty)
     = Inl (ExternalError ''TimeoutError'') \<and>
   snd (snd (download_to_tempfile stalled_env (JStr (ascii ''https://cdn/x.mp4'')) Map.empty))
     (ascii ''/tmp/tmpab12.mp4'') = Some ''abcde''"
  by (simp add: download_to_tempfile_def except_handler_def stalled_env_def quiet_env_def
      video_response_def remove_quietly_def os_remove_def)

text \<open>
  C1. The code at a download whose file cannot grow any more: \<open>tmp.write\<close> raises after
  two chunks, and the first statement of the handler, \<open>tmp.close()\<close>, raises as well.
  The claim says that the partial file is deleted and the exception of the failure is
  raised again. The call raises the exception of the close instead, \<open>os.remove\<close> is not
  reached although it would have worked, and the partial file is left at its path.
\<close>

theorem download_close_failure_keeps_file:
  "download_to_tempfile full_disk_env (JStr (ascii ''https://cdn/x.mp4'')) Map.empty =
     (Inl (ExternalError ''OSError in tmp.close''),
      [DownloadGet (JStr (ascii ''https://cdn/x.mp4''))],
      [ascii ''/tmp/tmpab12.mp4'' \<mapsto> ''abcde'']) \<and>
   dl_remove_fault full_disk_env = None \<and>
   remove_quietly (dl_remove_fault full_disk_env) (ascii ''/tmp/tmpab12.mp4'')
     [ascii ''/tmp/tmpab12.mp4'' \<mapsto> ''abcde''] = Map.empty"
  by (simp add: download_to_tempfile_def except_handler_def full_disk_env_def quiet_env_def
      video_response_def remove_quietly_def os_remove_def)

section \<open>The link matcher\<close>

lemmas matcher_defs =
  extract_tiktok_url_from_text_def URL_RE_match_def opt_s_sep_body_def sep_body_def lit_ci_def
  s_ci_def url_body_char_def py_isspace_def is_tiktok_link_def urlparse_netloc_def
  splitnetloc_def checknetloc_raises_def isascii_def py_lower_def ascii_lower_def
  ALLOWED_TT_HOSTS_def is_ascii_alpha_def scheme_char_def

lemma URL_RE_match_nonempty: "URL_RE_match s = Some (m, rest) \<Longrightarrow> m \<noteq> []"
  by (auto simp: URL_RE_match_def split: list.splits if_splits option.splits)

lemma finditer_nonempty: "u \<in> set (finditer s) \<Longrightarrow> u \<noteq> []"
  by (induction s rule: finditer.induct)
     (auto split: option.splits dest: URL_RE_match_nonempty)

lemma first_tiktok_link_Some:
  "first_tiktok_link lib ms = Some u \<Longrightarrow> u \<in> set ms \<and> is_tiktok_link lib u"
  by (induction ms) (auto split: if_splits)

lemma extract_nonempty: "extract_tiktok_url_from_text lib t = Some u \<Longrightarrow> u \<noteq> []"
  by (auto simp: extract_tiktok_url_from_text_def split: option.splits if_splits
      dest!: first_tiktok_link_Some dest: finditer_nonempty)

text \<open>The matcher returns the first match that passes its own test, if there is one.\<close>

lemma first_tiktok_link_find: "first_tiktok_link lib ms = List.find (is_tiktok_link lib) ms"
  by (induction ms) simp_all

lemma extract_first_accepted:
  "extract_tiktok_url_from_text lib (Some t) = List.find (is_tiktok_link lib) (finditer t)"
  by (cases t) (simp_all add: extract_tiktok_url_from_text_def first_tiktok_link_find)

lemma extract_vm_text: "extract_tiktok_url_from_text lib (Some vm_text) = Some vm_link"
  by (simp add: vm_text_def vm_link_def ascii_def matcher_defs)

lemma vm_text_nonempty: "vm_text \<noteq> []"
  by (simp add: vm_text_def ascii_def)

lemma finditer_mixed_text: "finditer mixed_text = [evil_link, vm_link]"
  by (simp add: mixed_text_def evil_link_def vm_link_def ascii_def matcher_defs)

lemma finditer_evil_link: "finditer evil_link = [evil_link]"
  by (simp add: evil_link_def ascii_def matcher_defs)

lemma evil_link_host: "spec_url_host lib evil_link = Some (ascii ''evil.example'')"
  by (simp add: evil_link_def ascii_def spec_url_host_def matcher_defs)

lemma evil_link_accepted: "is_tiktok_link lib evil_link"
  by (simp add: evil_link_def ascii_def matcher_defs)

lemma evil_link_not_allow_listed: "\<not> spec_allow_listed lib evil_link"
  by (simp add: spec_allow_listed_def evil_link_host) (simp add: ALLOWED_TT_HOSTS_def ascii_def)

lemma vm_link_host: "spec_url_host lib vm_link = Some (ascii ''vm.tiktok.com'')"
  by (simp add: vm_link_def ascii_def spec_url_host_def matcher_defs)

lemma ascii_lower_colon: "ascii_lower c \<noteq> 58 \<longleftrightarrow> c \<noteq> 58"
  by (simp add: ascii_lower_def)

lemma takeWhile_lower:
  "takeWhile (\<lambda>c. c \<noteq> 58) (map ascii_lower s) = map ascii_lower (takeWhile (\<lambda>c. c \<noteq> 58) s)"
  by (induction s) (simp_all add: ascii_lower_colon)

lemma takeWhile_all: "x \<notin> set s \<Longrightarrow> takeWhile (\<lambda>c. c \<noteq> x) s = s"
  by (induction s) auto

lemma allowed_plain: "a \<in> set ALLOWED_TT_HOSTS \<Longrightarrow> a \<noteq> [] \<and> 37 \<notin> set a"
  by (auto simp: ALLOWED_TT_HOSTS_def ascii_def)

lemma isascii_takeWhile: "isascii s \<Longrightarrow> isascii (takeWhile P s)"
  by (induction s) (auto simp: isascii_def)

lemma lower_keeps_percent: "37 \<in> set s \<Longrightarrow> 37 \<in> set (map ascii_lower s)"
  by (induction s) (auto simp: ascii_lower_def)

text \<open>
  Where the netloc is ASCII and has neither user information nor a bracket, the code's
  test is the test of the URL's host against the allow-list.
\<close>

lemma is_tiktok_link_agrees:
  assumes "urlparse_netloc lib u = Inr netloc"
    and "64 \<notin> set netloc" and "91 \<notin> set netloc" and "isascii netloc"
  shows "is_tiktok_link lib u = spec_allow_listed lib u"
proof -
  let ?h = "takeWhile (\<lambda>c. c \<noteq> 58) netloc"
  have code: "is_tiktok_link lib u \<longleftrightarrow> map ascii_lower ?h \<in> set ALLOWED_TT_HOSTS"
  proof -
    have "(if 58 \<in> set (map ascii_lower netloc)
           then takeWhile (\<lambda>c. c \<noteq> 58) (map ascii_lower netloc) else map ascii_lower netloc)
          = takeWhile (\<lambda>c. c \<noteq> 58) (map ascii_lower netloc)"
      by (simp add: takeWhile_all)
    then show ?thesis
      using assms(1,4) by (simp add: is_tiktok_link_def py_lower_def Let_def takeWhile_lower)
  qed
  have hostinfo: "rev (takeWhile (\<lambda>c. c \<noteq> 64) (rev netloc)) = netloc"
    using assms(2) by (simp add: takeWhile_all)
  have asc: "isascii ?h" using assms(4) by (rule isascii_takeWhile)
  have nobr: "91 \<notin> set ?h" using assms(3) by (auto dest: set_takeWhileD)
  show ?thesis
  proof (cases "?h = []")
    case True
    then show ?thesis
      using assms(1,3) allowed_plain
      by (auto simp: code spec_allow_listed_def spec_url_host_def hostinfo Let_def)
  next
    case False
    show ?thesis
    proof (cases "37 \<in> set ?h")
      case True
      then have "dropWhile (\<lambda>c. c \<noteq> 37) ?h \<noteq> []" by (simp add: dropWhile_eq_Nil_conv)
      then have "37 \<in> set (dropWhile (\<lambda>c. c \<noteq> 37) ?h)"
        using hd_dropWhile [of "\<lambda>c. c \<noteq> 37" ?h] hd_in_set [of "dropWhile (\<lambda>c. c \<noteq> 37) ?h"]
        by auto
      then have "py_lower lib (takeWhile (\<lambda>c. c \<noteq> 37) ?h) @ dropWhile (\<lambda>c. c \<noteq> 37) ?h
                   \<notin> set ALLOWED_TT_HOSTS"
        using allowed_plain by fastforce
      moreover have "map ascii_lower ?h \<notin> set ALLOWED_TT_HOSTS"
        using lower_keeps_percent [OF True] allowed_plain by blast
      ultimately show ?thesis
        using assms(1,3) False
        by (simp add: code spec_allow_listed_def spec_url_host_def hostinfo Let_def)
    next
      case no: False
      have tw: "takeWhile (\<lambda>c. c \<noteq> 37) ?h = ?h"
        using no by (rule takeWhile_all)
      have dw: "dropWhile (\<lambda>c. c \<noteq> 37) ?h = []"
        using no by (auto simp: dropWhile_eq_Nil_conv)
      show ?thesis
        using assms(1,3) False asc
        by (simp add: code spec_allow_listed_def spec_url_host_def hostinfo Let_def py_lower_def
            tw dw)
    qed
  qed
qed

text \<open>A URL that does not parse is no match, and no error.\<close>

lemma is_tiktok_link_parse_error:
  "urlparse_netloc lib u = Inl e \<Longrightarrow> \<not> is_tiktok_link lib u \<and> \<not> spec_allow_listed lib u"
  by (simp add: is_tiktok_link_def spec_allow_listed_def spec_url_host_def)

lemma unclosed_bracket_no_match:
  "urlparse_netloc lib (ascii ''https://[tiktok.com/v'') = Inl ValueError \<and>
   extract_tiktok_url_from_text lib (Some (ascii ''see https://[tiktok.com/v'')) = None"
  by (simp add: ascii_def matcher_defs)

lemma find_agree:
  "(\<And>x. x \<in> set xs \<Longrightarrow> P x = Q x) \<Longrightarrow> List.find P xs = List.find Q xs"
  by (induction xs) auto

text \<open>
  So when no URL of the text has user information, a bracket or a non-ASCII character
  in its netloc, the matcher returns the first URL whose host is in the allow-list, and
  nothing when there is none.
\<close>

lemma matcher_first_allow_listed:
  assumes "\<And>u netloc. u \<in> set (finditer t) \<Longrightarrow> urlparse_netloc lib u = Inr netloc \<Longrightarrow>
             64 \<notin> set netloc \<and> 91 \<notin> set netloc \<and> isascii netloc"
  shows "extract_tiktok_url_from_text lib (Some t)
           = List.find (spec_allow_listed lib) (finditer t)"
proof -
  have "is_tiktok_link lib u = spec_allow_listed lib u" if "u \<in> set (finditer t)" for u
  proof (cases "urlparse_netloc lib u")
    case (Inl e)
    then show ?thesis by (simp add: is_tiktok_link_parse_error)
  next
    case (Inr netloc)
    with assms [OF that] show ?thesis by (intro is_tiktok_link_agrees) auto
  qed
  then show ?thesis
    unfolding extract_first_accepted by (rule find_agree)
qed

text \<open>
  C3. The code at the text
  \<open>https://tiktok.com:x@evil.example/v https://vm.tiktok.com/ZMxyz/\<close>. It holds two
  URLs. The host of the first is \<open>evil.example\<close>, which is not in the allow-list; the
  host of the second is \<open>vm.tiktok.com\<close>, which is. The matcher returns the first: it
  cuts the netloc \<open>tiktok.com:x@evil.example\<close> at its first colon and finds
  \<open>tiktok.com\<close> in the allow-list.
\<close>

theorem matcher_returns_userinfo_url:
  "finditer mixed_text = [evil_link, vm_link] \<and>
   spec_url_host lib evil_link = Some (ascii ''evil.example'') \<and>
   \<not> spec_allow_listed lib evil_link \<and>
   spec_url_host lib vm_link = Some (ascii ''vm.tiktok.com'') \<and>
   spec_allow_listed lib vm_link \<and>
   extract_tiktok_url_from_text lib (Some mixed_text) = Some evil_link"
proof -
  have "mixed_text \<noteq> []" by (simp add: mixed_text_def ascii_def)
  then have "extract_tiktok_url_from_text lib (Some mixed_text) = Some evil_link"
    by (simp add: extract_tiktok_url_from_text_def finditer_mixed_text evil_link_accepted)
  moreover have "spec_allow_listed lib vm_link"
    by (simp add: spec_allow_listed_def vm_link_host) (simp add: ALLOWED_TT_HOSTS_def ascii_def)
  ultimately show ?thesis
    by (simp add: finditer_mixed_text evil_link_host vm_link_host evil_link_not_allow_listed)
qed

section \<open>The delivery orchestrator\<close>

lemma first_calls_eq:
  "first_calls env msg =
     (if in_group msg then [DeleteMessage] else [])
     @ [SendChatAction (chat_id msg) (ascii ''upload_video'')]"
  by (simp add: first_calls_def swallowed_def split: option.splits)

lemma handle_message_matched:
  assumes "truthy_str (msg_text msg)"
    and "extract_tiktok_url_from_text lib (msg_text msg) = Some url"
  shows "handle_message lib env (Some msg) fs =
     (case fst (resolve_tiktok_direct_url env url) of
        Inl e \<Rightarrow> (Raised e, first_calls env msg @ snd (resolve_tiktok_direct_url env url), fs)
      | Inr d \<Rightarrow>
          (fst (deliver env (chat_id msg) (caption_of msg) d fs),
           first_calls env msg @ snd (resolve_tiktok_direct_url env url)
             @ fst (snd (deliver env (chat_id msg) (caption_of msg) d fs)),
           snd (snd (deliver env (chat_id msg) (caption_of msg) d fs))))"
proof -
  have "url \<noteq> []" using assms(2) by (rule extract_nonempty)
  then show ?thesis
    using assms
    by (simp add: handle_message_def Let_def split: prod.splits sum.splits option.splits)
qed

text \<open>
  The frame of C7: without a message, without text, or when the matcher finds nothing,
  the handler returns and nothing has been called or changed.
\<close>

lemma handle_message_unmatched:
  "upd = None \<or> (\<exists>msg. upd = Some msg \<and>
      (\<not> truthy_str (msg_text msg) \<or> extract_tiktok_url_from_text lib (msg_text msg) = None))
   \<Longrightarrow> handle_message lib env upd fs = (Returned, [], fs)"
  by (auto simp: handle_message_def)

lemma deliver_unresolved:
  "\<not> truthy_opt d \<Longrightarrow>
   deliver env cid cap d fs =
     (fault_outcome (send_message_fault env), [SendMessage cid notice_text], fs)"
  by (simp add: deliver_def)

lemma resolve_trace:
  "c \<in> set (snd (resolve_tiktok_direct_url env url)) \<Longrightarrow>
   \<not> is_send_message c \<and> \<not> is_send_video c"
  by (auto simp: resolve_tiktok_direct_url_def Let_def split: sum.splits if_splits)

lemma first_calls_trace:
  "c \<in> set (first_calls env msg) \<Longrightarrow> \<not> is_send_message c \<and> \<not> is_send_video c"
  by (auto simp: first_calls_eq split: if_splits)

lemma download_trace:
  "c \<in> set (fst (snd (download_to_tempfile env v fs))) \<Longrightarrow> c = DownloadGet v"
  by (auto simp: download_to_tempfile_def except_handler_def Let_def
      split: sum.splits if_splits option.splits)

lemma fallback_trace:
  "c \<in> set (fst (snd (fallback_upload env cid cap v fs))) \<Longrightarrow>
   c = DownloadGet v \<or> (\<exists>content. c = SendVideo cid (ByFile content) cap)"
  using download_trace [of c env v fs]
  by (auto simp: fallback_upload_def Let_def split: prod.splits sum.splits if_splits)

lemma deliver_trace:
  "c \<in> set (fst (snd (deliver env cid cap d fs))) \<Longrightarrow>
   (c = SendMessage cid notice_text \<and> \<not> truthy_opt d) \<or>
   (truthy_opt d \<and> (c = DownloadGet (the d) \<or> (\<exists>v. c = SendVideo cid v cap)))"
  using fallback_trace [of c env cid cap "the d" fs]
  by (auto simp: deliver_def Let_def split: prod.splits option.splits if_splits)

lemma handle_message_trace:
  assumes "c \<in> set (fst (snd (handle_message lib env upd fs)))"
  shows "\<exists>msg. upd = Some msg \<and>
     (is_send_message c \<longrightarrow> c = SendMessage (chat_id msg) notice_text) \<and>
     (is_send_video c \<longrightarrow> (\<exists>v. c = SendVideo (chat_id msg) v (caption_of msg)))"
proof (cases "\<exists>msg url. upd = Some msg \<and> truthy_str (msg_text msg) \<and>
    extract_tiktok_url_from_text lib (msg_text msg) = Some url")
  case False
  then have "handle_message lib env upd fs = (Returned, [], fs)"
    by (intro handle_message_unmatched) (cases upd, auto)
  with assms show ?thesis by simp
next
  case True
  then obtain msg url where m: "upd = Some msg" "truthy_str (msg_text msg)"
    "extract_tiktok_url_from_text lib (msg_text msg) = Some url" by blast
  note eq = handle_message_matched [OF m(2,3), of env fs]
  show ?thesis
  proof (cases "fst (resolve_tiktok_direct_url env url)")
    case (Inl e)
    with assms eq m(1) show ?thesis
      by (auto dest: resolve_trace first_calls_trace)
  next
    case (Inr d)
    with assms eq m(1)
    have "c \<in> set (first_calls env msg) \<or> c \<in> set (snd (resolve_tiktok_direct_url env url)) \<or>
          c \<in> set (fst (snd (deliver env (chat_id msg) (caption_of msg) d fs)))"
      by auto
    then show ?thesis
      using m(1) by (auto dest: resolve_trace first_calls_trace dest!: deliver_trace)
  qed
qed

lemma filter_send_message_deliver:
  "filter is_send_message (fst (snd (deliver env cid cap d fs))) =
     (if truthy_opt d then [] else [SendMessage cid notice_text])"
proof (cases "truthy_opt d")
  case False
  then show ?thesis by (simp add: deliver_unresolved)
next
  case True
  then have "\<forall>c \<in> set (fst (snd (deliver env cid cap d fs))). \<not> is_send_message c"
    by (auto dest!: deliver_trace)
  with True show ?thesis by (simp add: filter_empty_conv)
qed

lemma filter_send_message_handle:
  "length (filter is_send_message (fst (snd (handle_message lib env upd fs)))) \<le> 1"
proof (cases "\<exists>msg url. upd = Some msg \<and> truthy_str (msg_text msg) \<and>
    extract_tiktok_url_from_text lib (msg_text msg) = Some url")
  case False
  then have "handle_message lib env upd fs = (Returned, [], fs)"
    by (intro handle_message_unmatched) (cases upd, auto)
  then show ?thesis by simp
next
  case True
  then obtain msg url where m: "upd = Some msg" "truthy_str (msg_text msg)"
    "extract_tiktok_url_from_text lib (msg_text msg) = Some url" by blast
  have a: "filter is_send_message (first_calls env msg) = []"
    and b: "filter is_send_message (snd (resolve_tiktok_direct_url env url)) = []"
    by (auto simp: filter_empty_conv dest: first_calls_trace resolve_trace)
  show ?thesis
    unfolding m(1) handle_message_matched [OF m(2,3)]
    by (cases "fst (resolve_tiktok_direct_url env url)")
       (simp_all add: a b filter_send_message_deliver)
qed

subsection \<open>The runs of the concrete inputs\<close>

lemma private_first_calls:
  "first_calls env (chat_msg ''private'' t) = [SendChatAction 7 (ascii ''upload_video'')]"
  by (simp add: first_calls_eq in_group_def chat_msg_def ascii_def)

lemma group_first_calls:
  "first_calls env (chat_msg ''group'' t) =
     [DeleteMessage, SendChatAction 7 (ascii ''upload_video'')]"
  by (simp add: first_calls_eq in_group_def chat_msg_def ascii_def)

lemma chat_msg_id: "chat_id (chat_msg kind t) = 7"
  by (simp add: chat_msg_def)

lemma chat_msg_text: "msg_text (chat_msg kind t) = Some t"
  by (simp add: chat_msg_def)

lemma display_name_bob: "display_name_from_msg (chat_msg kind t) = ascii ''@bob''"
  by (simp add: display_name_from_msg_def chat_msg_def bob_def ascii_def)

lemma caption_bob: "caption_of (chat_msg kind t) = ascii ''Send By : @bob''"
  by (simp add: caption_of_def display_name_bob) (simp add: ascii_def)

lemma resolve_empty_data:
  "resolve_tiktok_direct_url empty_data_env url =
     (Inr None, [ResolverGet (ascii ''https://www.tikwm.com/api/'')
                   [(ascii ''url'', url), (ascii ''hd'', ascii ''1'')], ReadJson])"
  by (simp add: resolve_tiktok_direct_url_def empty_data_env_def quiet_env_def ok_response_def
      py_or_def item_def candidate_keys_def ascii_def)

lemma resolve_play_response:
  "resolve_tiktok_direct_url (fallback_env uf rf) url =
     (Inr (Some (JStr (ascii ''https://cdn/x.mp4''))),
      [ResolverGet (ascii ''https://www.tikwm.com/api/'')
         [(ascii ''url'', url), (ascii ''hd'', ascii ''1'')], ReadJson])"
  by (simp add: resolve_tiktok_direct_url_def fallback_env_def quiet_env_def play_response_def
      py_or_def item_def candidate_keys_def ascii_def)

lemma download_fallback_env:
  "download_to_tempfile (fallback_env uf rf) v Map.empty =
     (Inr (ascii ''/tmp/tmpab12.mp4''), [DownloadGet v],
      [ascii ''/tmp/tmpab12.mp4'' \<mapsto> ''abcde''])"
  by (simp add: download_to_tempfile_def except_handler_def fallback_env_def quiet_env_def
      video_response_def)

lemma download_success_file:
  "download_to_tempfile env v fs = (Inr path, dtr, fs1) \<Longrightarrow>
   mktemp env = Inr path \<and> (\<exists>content. fs1 path = Some content)"
  by (auto simp: download_to_tempfile_def except_handler_def Let_def
      split: sum.splits if_splits option.splits)

lemma fallback_upload_after_download:
  assumes "download_to_tempfile env v fs = (Inr path, dtr, fs1)" and "path \<noteq> []"
    and "open_fault env = None"
  shows "fallback_upload env cid cap v fs =
           (fault_outcome (send_video_file_fault env),
            dtr @ [SendVideo cid (ByFile (the (fs1 path))) cap],
            remove_quietly (final_remove_fault env) path fs1)"
proof -
  from download_success_file [OF assms(1)] obtain content where "fs1 path = Some content"
    by blast
  then show ?thesis
    using assms by (simp add: fallback_upload_def open_rb_def)
qed

text \<open>
  Scenario B of the specification, with a fault of the upload and of the final removal
  left open: a group chat, the reference send fails, the download succeeds.
\<close>

lemma fallback_run:
  "handle_message lib (fallback_env uf rf) (Some (chat_msg ''group'' vm_text)) Map.empty =
     (fault_outcome uf,
      [DeleteMessage, SendChatAction 7 (ascii ''upload_video''),
       ResolverGet (ascii ''https://www.tikwm.com/api/'')
         [(ascii ''url'', vm_link), (ascii ''hd'', ascii ''1'')],
       ReadJson,
       SendVideo 7 (ByUrl (JStr (ascii ''https://cdn/x.mp4''))) (ascii ''Send By : @bob''),
       DownloadGet (JStr (ascii ''https://cdn/x.mp4'')),
       SendVideo 7 (ByFile ''abcde'') (ascii ''Send By : @bob'')],
      remove_quietly rf (ascii ''/tmp/tmpab12.mp4'') [ascii ''/tmp/tmpab12.mp4'' \<mapsto> ''abcde''])"
proof -
  have path: "ascii ''/tmp/tmpab12.mp4'' \<noteq> []" by (simp add: ascii_def)
  have open_ok: "open_fault (fallback_env uf rf) = None"
    and url_fault: "send_video_url_fault (fallback_env uf rf) = Some (ExternalError ''BadRequest'')"
    and faults: "send_video_file_fault (fallback_env uf rf) = uf"
      "final_remove_fault (fallback_env uf rf) = rf"
    by (simp_all add: fallback_env_def quiet_env_def)
  have t: "truthy (JStr (ascii ''https://cdn/x.mp4''))" by (simp add: ascii_def)
  have "deliver (fallback_env uf rf) 7 (ascii ''Send By : @bob'')
          (Some (JStr (ascii ''https://cdn/x.mp4''))) Map.empty =
        (fault_outcome uf,
         [SendVideo 7 (ByUrl (JStr (ascii ''https://cdn/x.mp4''))) (ascii ''Send By : @bob''),
          DownloadGet (JStr (ascii ''https://cdn/x.mp4'')),
          SendVideo 7 (ByFile ''abcde'') (ascii ''Send By : @bob'')],
         remove_quietly rf (ascii ''/tmp/tmpab12.mp4'')
           [ascii ''/tmp/tmpab12.mp4'' \<mapsto> ''abcde''])"
    using t by (simp add: deliver_def url_fault faults
        fallback_upload_after_download [OF download_fallback_env path open_ok])
  then show ?thesis
    using handle_message_matched
            [of "chat_msg ''group'' vm_text" lib vm_link "fallback_env uf rf" Map.empty]
    by (simp add: extract_vm_text vm_text_nonempty resolve_play_response group_first_calls
        caption_bob chat_msg_id chat_msg_text)
qed

subsection \<open>The failure notice\<close>

text \<open>
  C2, as amended. When a message matches and the resolver yields nothing, the handler
  makes the moderation and chat-action calls and the resolver request, then exactly one
  \<open>send_message\<close> call, and ends with the outcome of that call; no \<open>send_video\<close> call
  is made and no file is touched. The text sent is
  \<open>Couldn\<close>, U+2019, \<open>t resolve that TikTok link. Try a different one?\<close>: its
  apostrophe is the typographic one. In every run, whatever the outside does, each
  \<open>send_message\<close> call carries this text and there is at most one.
\<close>

theorem unresolved_sends_one_notice:
  "(\<forall>msg url. upd = Some msg \<and> truthy_str (msg_text msg) \<and>
       extract_tiktok_url_from_text lib (msg_text msg) = Some url \<and>
       fst (resolve_tiktok_direct_url env url) = Inr None \<longrightarrow>
      handle_message lib env upd fs =
        (fault_outcome (send_message_fault env),
         first_calls env msg @ snd (resolve_tiktok_direct_url env url)
           @ [SendMessage (chat_id msg) notice_text],
         fs) \<and>
      filter is_send_message (fst (snd (handle_message lib env upd fs)))
        = [SendMessage (chat_id msg) notice_text] \<and>
      filter is_send_video (fst (snd (handle_message lib env upd fs))) = []) \<and>
   (\<forall>cid t. SendMessage cid t \<in> set (fst (snd (handle_message lib env upd fs))) \<longrightarrow>
      t = notice_text) \<and>
   length (filter is_send_message (fst (snd (handle_message lib env upd fs)))) \<le> 1 \<and>
   notice_text = ascii ''Couldn'' @ [8217]
                   @ ascii ''t resolve that TikTok link. Try a different one?''"
proof (intro conjI allI impI)
  fix msg url
  assume h: "upd = Some msg \<and> truthy_str (msg_text msg) \<and>
       extract_tiktok_url_from_text lib (msg_text msg) = Some url \<and>
       fst (resolve_tiktok_direct_url env url) = Inr None"
  then have eq: "handle_message lib env upd fs =
        (fault_outcome (send_message_fault env),
         first_calls env msg @ snd (resolve_tiktok_direct_url env url)
           @ [SendMessage (chat_id msg) notice_text],
         fs)"
    using handle_message_matched [of msg lib url env fs] by (simp add: deliver_unresolved)
  have a: "filter is_send_message (first_calls env msg) = []"
    "filter is_send_video (first_calls env msg) = []"
    and b: "filter is_send_message (snd (resolve_tiktok_direct_url env url)) = []"
    "filter is_send_video (snd (resolve_tiktok_direct_url env url)) = []"
    by (auto simp: filter_empty_conv dest: first_calls_trace resolve_trace)
  show "handle_message lib env upd fs =
        (fault_outcome (send_message_fault env),
         first_calls env msg @ snd (resolve_tiktok_direct_url env url)
           @ [SendMessage (chat_id msg) notice_text],
         fs)" by (rule eq)
  show "filter is_send_message (fst (snd (handle_message lib env upd fs)))
        = [SendMessage (chat_id msg) notice_text]"
    by (simp add: eq a b)
  show "filter is_send_video (fst (snd (handle_message lib env upd fs))) = []"
    by (simp add: eq a b)
next
  fix cid t
  assume "SendMessage cid t \<in> set (fst (snd (handle_message lib env upd fs)))"
  from handle_message_trace [OF this] show "t = notice_text" by auto
next
  show "length (filter is_send_message (fst (snd (handle_message lib env upd fs)))) \<le> 1"
    by (rule filter_send_message_handle)
next
  show "notice_text = ascii ''Couldn'' @ [8217]
          @ ascii ''t resolve that TikTok link. Try a different one?''"
    by (simp add: notice_text_def)
qed

text \<open>Scenario C of the specification: the resolver answers \<open>{"data": {}}\<close>.\<close>

theorem unresolved_sends_one_notice_witness:
  "handle_message plain_lib empty_data_env (Some (chat_msg ''private'' vm_text)) Map.empty =
     (Returned,
      [SendChatAction 7 (ascii ''upload_video''),
       ResolverGet (ascii ''https://www.tikwm.com/api/'')
         [(ascii ''url'', vm_link), (ascii ''hd'', ascii ''1'')],
       ReadJson,
       SendMessage 7 notice_text],
      Map.empty)"
proof -
  have m: "Some (chat_msg ''private'' vm_text) = Some (chat_msg ''private'' vm_text) \<and>
       truthy_str (msg_text (chat_msg ''private'' vm_text)) \<and>
       extract_tiktok_url_from_text plain_lib (msg_text (chat_msg ''private'' vm_text))
         = Some vm_link \<and>
       fst (resolve_tiktok_direct_url empty_data_env vm_link) = Inr None"
    by (simp add: chat_msg_text extract_vm_text resolve_empty_data vm_text_nonempty)
  from unresolved_sends_one_notice
         [of "Some (chat_msg ''private'' vm_text)" plain_lib empty_data_env Map.empty] m
  have "handle_message plain_lib empty_data_env (Some (chat_msg ''private'' vm_text)) Map.empty =
        (fault_outcome (send_message_fault empty_data_env),
         first_calls empty_data_env (chat_msg ''private'' vm_text)
           @ snd (resolve_tiktok_direct_url empty_data_env vm_link)
           @ [SendMessage (chat_id (chat_msg ''private'' vm_text)) notice_text],
         Map.empty)"
    by blast
  moreover have "fault_outcome (send_message_fault empty_data_env) = Returned"
    by (simp add: fault_outcome_def empty_data_env_def quiet_env_def)
  ultimately show ?thesis
    by (simp add: resolve_empty_data private_first_calls chat_msg_id)
qed

lemma notice_text_apostrophe:
  "notice_text \<noteq> ascii ''Couldn't resolve that TikTok link. Try a different one?''"
  by (simp add: notice_text_def ascii_def)

text \<open>
  C2 as stated fails in scenario C: the resolution yields nothing, one message is sent,
  and it is not the text of the claim, whose apostrophe is the ASCII one.
\<close>

theorem notice_text_not_ascii_apostrophe:
  "fst (resolve_tiktok_direct_url empty_data_env vm_link) = Inr None \<and>
   SendMessage 7 notice_text
     \<in> set (fst (snd (handle_message plain_lib empty_data_env
                        (Some (chat_msg ''private'' vm_text)) Map.empty))) \<and>
   SendMessage 7 (ascii ''Couldn't resolve that TikTok link. Try a different one?'')
     \<notin> set (fst (snd (handle_message plain_lib empty_data_env
                        (Some (chat_msg ''private'' vm_text)) Map.empty)))"
proof -
  have eq: "handle_message plain_lib empty_data_env (Some (chat_msg ''private'' vm_text)) Map.empty =
     (fault_outcome (send_message_fault empty_data_env),
      first_calls empty_data_env (chat_msg ''private'' vm_text)
        @ snd (resolve_tiktok_direct_url empty_data_env vm_link)
        @ [SendMessage (chat_id (chat_msg ''private'' vm_text)) notice_text],
      Map.empty)"
    using handle_message_matched
            [of "chat_msg ''private'' vm_text" plain_lib vm_link empty_data_env Map.empty]
    by (simp add: chat_msg_text extract_vm_text resolve_empty_data deliver_unresolved
        vm_text_nonempty)
  show ?thesis
    unfolding eq using notice_text_apostrophe
    by (simp add: resolve_empty_data private_first_calls chat_msg_id)
qed

subsection \<open>Messages that should be discarded\<close>

text \<open>
  C7. The code at the message \<open>https://tiktok.com:x@evil.example/v\<close>, sent in a
  private chat while the resolver cannot be reached. The text holds one URL; its host is
  \<open>evil.example\<close>, so it holds no allow-listed URL. The handler does not discard it:
  it sends the chat action, asks the resolver about the URL and sends the failure
  notice.
\<close>

theorem userinfo_url_is_handled:
  "finditer evil_link = [evil_link] \<and>
   \<not> spec_allow_listed plain_lib evil_link \<and>
   handle_message plain_lib (quiet_env (Inl (ExternalError ''TimeoutError'')))
     (Some (chat_msg ''private'' evil_link)) Map.empty =
     (Returned,
      [SendChatAction 7 (ascii ''upload_video''),
       ResolverGet (ascii ''https://www.tikwm.com/api/'')
         [(ascii ''url'', evil_link), (ascii ''hd'', ascii ''1'')],
       SendMessage 7 notice_text],
      Map.empty)"
proof -
  let ?env = "quiet_env (Inl (ExternalError ''TimeoutError''))"
  have ne: "evil_link \<noteq> []" by (simp add: evil_link_def ascii_def)
  then have ex: "extract_tiktok_url_from_text plain_lib (Some evil_link) = Some evil_link"
    by (simp add: extract_tiktok_url_from_text_def finditer_evil_link evil_link_accepted)
  have res: "resolve_tiktok_direct_url ?env evil_link =
     (Inr None, [ResolverGet (ascii ''https://www.tikwm.com/api/'')
         [(ascii ''url'', evil_link), (ascii ''hd'', ascii ''1'')]])"
    by (simp add: resolve_tiktok_direct_url_def quiet_env_def)
  have out: "fault_outcome (send_message_fault ?env) = Returned"
    by (simp add: fault_outcome_def quiet_env_def)
  have run: "handle_message plain_lib ?env (Some (chat_msg ''private'' evil_link)) Map.empty =
     (Returned,
      [SendChatAction 7 (ascii ''upload_video''),
       ResolverGet (ascii ''https://www.tikwm.com/api/'')
         [(ascii ''url'', evil_link), (ascii ''hd'', ascii ''1'')],
       SendMessage 7 notice_text],
      Map.empty)"
    using handle_message_matched
            [of "chat_msg ''private'' evil_link" plain_lib evil_link ?env Map.empty]
    by (simp add: chat_msg_text ne ex res out deliver_unresolved private_first_calls chat_msg_id)
  with evil_link_not_allow_listed [of plain_lib] show ?thesis
    by (simp add: finditer_evil_link)
qed

subsection \<open>The caption\<close>

text \<open>
  C8, as amended. Every \<open>send_video\<close> call of a run, by reference or by upload, goes
  to the chat of the message and carries the caption \<open>Send By : \<close> followed by the
  identity formatter's value for that message, and this value is not empty.
\<close>

theorem video_caption_send_by:
  "\<forall>c \<in> set (fst (snd (handle_message lib env upd fs))). \<forall>cid v cap.
     c = SendVideo cid v cap \<longrightarrow>
       (\<exists>msg. upd = Some msg \<and> cid = chat_id msg \<and>
              cap = ascii ''Send By : '' @ display_name_from_msg msg \<and>
              display_name_from_msg msg \<noteq> [])"
proof (intro ballI allI impI)
  fix c cid v cap
  assume "c \<in> set (fst (snd (handle_message lib env upd fs)))" and "c = SendVideo cid v cap"
  with handle_message_trace [of c lib env upd fs]
  show "\<exists>msg. upd = Some msg \<and> cid = chat_id msg \<and>
              cap = ascii ''Send By : '' @ display_name_from_msg msg \<and>
              display_name_from_msg msg \<noteq> []"
    by (auto simp: caption_of_def display_name_nonempty)
qed

text \<open>Scenario B: both \<open>send_video\<close> calls carry \<open>Send By : @bob\<close>.\<close>

theorem video_caption_send_by_witness:
  "SendVideo 7 (ByUrl (JStr (ascii ''https://cdn/x.mp4''))) (ascii ''Send By : @bob'')
     \<in> set (fst (snd (handle_message plain_lib (fallback_env None None)
                        (Some (chat_msg ''group'' vm_text)) Map.empty))) \<and>
   SendVideo 7 (ByFile ''abcde'') (ascii ''Send By : @bob'')
     \<in> set (fst (snd (handle_message plain_lib (fallback_env None None)
                        (Some (chat_msg ''group'' vm_text)) Map.empty))) \<and>
   ascii ''Send By : @bob''
     = ascii ''Send By : '' @ display_name_from_msg (chat_msg ''group'' vm_text) \<and>
   display_name_from_msg (chat_msg ''group'' vm_text) \<noteq> []"
proof -
  have a: "SendVideo 7 (ByUrl (JStr (ascii ''https://cdn/x.mp4''))) (ascii ''Send By : @bob'')
     \<in> set (fst (snd (handle_message plain_lib (fallback_env None None)
                        (Some (chat_msg ''group'' vm_text)) Map.empty)))"
    and b: "SendVideo 7 (ByFile ''abcde'') (ascii ''Send By : @bob'')
     \<in> set (fst (snd (handle_message plain_lib (fallback_env None None)
                        (Some (chat_msg ''group'' vm_text)) Map.empty)))"
    by (simp_all add: fallback_run)
  from video_caption_send_by [rule_format, OF b refl] a b show ?thesis by simp
qed

text \<open>
  C8 as stated fails in scenario B: the video is sent with the caption
  \<open>Send By : @bob\<close>, which is not \<open>Sent by: \<close> followed by the formatter's value
  \<open>@bob\<close>.
\<close>

theorem video_caption_not_sent_by:
  "SendVideo 7 (ByUrl (JStr (ascii ''https://cdn/x.mp4''))) (ascii ''Send By : @bob'')
     \<in> set (fst (snd (handle_message plain_lib (fallback_env None None)
                        (Some (chat_msg ''group'' vm_text)) Map.empty))) \<and>
   display_name_from_msg (chat_msg ''group'' vm_text) = ascii ''@bob'' \<and>
   ascii ''Send By : @bob''
     \<noteq> ascii ''Sent by: '' @ display_name_from_msg (chat_msg ''group'' vm_text)"
  unfolding display_name_bob by (simp add: fallback_run) (simp add: ascii_def)

subsection \<open>A failing upload\<close>

text \<open>
  C9, as amended. In the fallback path, when the download succeeds and the
  \<open>send_video\<close> call of the upload raises, that exception leaves the handler, no
  \<open>send_message\<close> call is made, and the removal of the temporary file is attempted
  first: when \<open>os.remove\<close> succeeds the file is gone; when \<open>os.remove\<close> itself fails,
  that failure is dropped and the file stays. (The path of a temporary file is not the
  empty string, which \<open>if path\<close> would take for no path.)
\<close>

theorem upload_failure_propagates:
  assumes "upd = Some msg" and "truthy_str (msg_text msg)"
    and "extract_tiktok_url_from_text lib (msg_text msg) = Some url"
    and "fst (resolve_tiktok_direct_url env url) = Inr (Some v)" and "truthy v"
    and "send_video_url_fault env = Some e1"
    and "download_to_tempfile env v fs = (Inr path, dtr, fs1)" and "path \<noteq> []"
    and "open_fault env = None" and "send_video_file_fault env = Some e"
  shows "fst (handle_message lib env upd fs) = Raised e \<and>
     filter is_send_message (fst (snd (handle_message lib env upd fs))) = [] \<and>
     (final_remove_fault env = None \<longrightarrow>
        snd (snd (handle_message lib env upd fs)) path = None) \<and>
     (final_remove_fault env \<noteq> None \<longrightarrow>
        snd (snd (handle_message lib env upd fs)) path \<noteq> None)"
proof -
  from download_success_file [OF assms(7)] obtain content where present: "fs1 path = Some content"
    by blast
  have fb: "fallback_upload env (chat_id msg) (caption_of msg) v fs =
           (Raised e, dtr @ [SendVideo (chat_id msg) (ByFile (the (fs1 path))) (caption_of msg)],
            remove_quietly (final_remove_fault env) path fs1)"
    using fallback_upload_after_download [OF assms(7-9)] assms(10)
    by (simp add: fault_outcome_def)
  have dl: "deliver env (chat_id msg) (caption_of msg) (Some v) fs =
           (Raised e,
            SendVideo (chat_id msg) (ByUrl v) (caption_of msg) # dtr
              @ [SendVideo (chat_id msg) (ByFile (the (fs1 path))) (caption_of msg)],
            remove_quietly (final_remove_fault env) path fs1)"
    using assms(5,6) by (simp add: deliver_def fb)
  have eq: "handle_message lib env upd fs =
           (Raised e,
            first_calls env msg @ snd (resolve_tiktok_direct_url env url)
              @ SendVideo (chat_id msg) (ByUrl v) (caption_of msg) # dtr
              @ [SendVideo (chat_id msg) (ByFile (the (fs1 path))) (caption_of msg)],
            remove_quietly (final_remove_fault env) path fs1)"
    unfolding assms(1) handle_message_matched [OF assms(2,3)] by (simp add: assms(4) dl)
  have dtr: "dtr = fst (snd (download_to_tempfile env v fs))"
    by (simp add: assms(7))
  have no_msg: "filter is_send_message (first_calls env msg) = []"
    "filter is_send_message (snd (resolve_tiktok_direct_url env url)) = []"
    "filter is_send_message dtr = []"
    unfolding dtr
    by (auto simp: filter_empty_conv dest: first_calls_trace resolve_trace download_trace)
  show ?thesis
    using present by (auto simp: eq no_msg remove_quietly_present remove_quietly_fault)
qed

text \<open>Scenario B with an upload that raises, while \<open>os.remove\<close> works.\<close>

theorem upload_failure_propagates_witness:
  "fst (handle_message plain_lib (fallback_env (Some (ExternalError ''NetworkError'')) None)
         (Some (chat_msg ''group'' vm_text)) Map.empty) = Raised (ExternalError ''NetworkError'') \<and>
   snd (snd (handle_message plain_lib (fallback_env (Some (ExternalError ''NetworkError'')) None)
         (Some (chat_msg ''group'' vm_text)) Map.empty)) (ascii ''/tmp/tmpab12.mp4'') = None"
proof -
  let ?env = "fallback_env (Some (ExternalError ''NetworkError'')) None"
  let ?msg = "chat_msg ''group'' vm_text"
  have 1: "truthy_str (msg_text ?msg)"
    and 2: "extract_tiktok_url_from_text plain_lib (msg_text ?msg) = Some vm_link"
    by (simp_all add: chat_msg_text vm_text_nonempty extract_vm_text)
  have 3: "fst (resolve_tiktok_direct_url ?env vm_link)
             = Inr (Some (JStr (ascii ''https://cdn/x.mp4'')))"
    by (simp add: resolve_play_response)
  have 4: "truthy (JStr (ascii ''https://cdn/x.mp4''))" by (simp add: ascii_def)
  have 5: "send_video_url_fault ?env = Some (ExternalError ''BadRequest'')"
    and 8: "open_fault ?env = None"
    and 9: "send_video_file_fault ?env = Some (ExternalError ''NetworkError'')"
    and 10: "final_remove_fault ?env = None"
    by (simp_all add: fallback_env_def quiet_env_def)
  have 7: "ascii ''/tmp/tmpab12.mp4'' \<noteq> []" by (simp add: ascii_def)
  from upload_failure_propagates [OF refl 1 2 3 4 5 download_fallback_env 7 8 9] 10
  show ?thesis by simp
qed

text \<open>
  C9 as stated fails: the upload raises and \<open>os.remove\<close> raises too. The exception of
  the upload leaves the handler, and the temporary file is still there.
\<close>

theorem upload_failure_file_remains:
  "fst (handle_message plain_lib
         (fallback_env (Some (ExternalError ''NetworkError''))
            (Some (ExternalError ''PermissionError'')))
         (Some (chat_msg ''group'' vm_text)) Map.empty) = Raised (ExternalError ''NetworkError'') \<and>
   snd (snd (handle_message plain_lib
         (fallback_env (Some (ExternalError ''NetworkError''))
            (Some (ExternalError ''PermissionError'')))
         (Some (chat_msg ''group'' vm_text)) Map.empty)) (ascii ''/tmp/tmpab12.mp4'')
     = Some ''abcde''"
  by (simp add: fallback_run fault_outcome_def remove_quietly_fault)

end
